theory Spec2Isabelle
  imports Main "HOL-Library.AList"
begin

section \<open>Documents and the Python primitives the compiler applies to them\<close>

text \<open>
  A document is what the JSON decoder of the source store returns: nested dicts, lists,
  strings, numbers, booleans and \<open>None\<close>. A dict is an association list in insertion
  order, its keys distinct as in Python. Numbers are integers here; a float behaves as
  \<open>JNum\<close> in every operation below (it is neither a container nor subscriptable).
\<close>

datatype json =
    JNull
  | JBool bool
  | JNum int
  | JStr string
  | JList "json list"
  | JDict "(string \<times> json) list"

text \<open>
  The exceptions the modelled code can raise; \<open>HookError\<close> stands for whatever an
  externally supplied processing module raises.
\<close>

datatype error = TypeError | KeyError | IndexError | HookError

text \<open>\<^verbatim>\<open>sub in s\<close> for two Python strings: substring test.\<close>

fun starts_with :: "string \<Rightarrow> string \<Rightarrow> bool" where
  "starts_with [] s = True"
| "starts_with (p # ps) [] = False"
| "starts_with (p # ps) (c # cs) = (p = c \<and> starts_with ps cs)"

fun str_contains :: "string \<Rightarrow> string \<Rightarrow> bool" where
  "str_contains sub [] = (sub = [])"
| "str_contains sub (c # cs) = (starts_with sub (c # cs) \<or> str_contains sub cs)"

text \<open>
  \<^verbatim>\<open>key in item\<close> with a string key: key membership for a dict, element membership
  for a list, substring test for a string, and \<^verbatim>\<open>TypeError\<close> (argument is not
  iterable) for a number, a boolean or \<open>None\<close>.
\<close>

fun py_contains :: "string \<Rightarrow> json \<Rightarrow> error + bool" where
  "py_contains k (JDict kvs) = Inr (k \<in> set (map fst kvs))"
| "py_contains k (JList xs) = Inr (JStr k \<in> set xs)"
| "py_contains k (JStr s) = Inr (str_contains k s)"
| "py_contains k JNull = Inl TypeError"
| "py_contains k (JBool b) = Inl TypeError"
| "py_contains k (JNum n) = Inl TypeError"

text \<open>
  \<^verbatim>\<open>item[key]\<close> with a string key: the value for a dict (\<^verbatim>\<open>KeyError\<close> when the
  key is missing), \<^verbatim>\<open>TypeError\<close> for everything else (list and string indices must
  be integers, the other values are not subscriptable).
\<close>

fun py_getitem :: "json \<Rightarrow> string \<Rightarrow> error + json" where
  "py_getitem (JDict kvs) k = (case map_of kvs k of Some v \<Rightarrow> Inr v | None \<Rightarrow> Inl KeyError)"
| "py_getitem (JList xs) k = Inl TypeError"
| "py_getitem (JStr s) k = Inl TypeError"
| "py_getitem JNull k = Inl TypeError"
| "py_getitem (JBool b) k = Inl TypeError"
| "py_getitem (JNum n) k = Inl TypeError"

text \<open>
  \<^verbatim>\<open>for value in item\<close>: the elements of a list, the keys of a dict, the characters
  of a string; \<^verbatim>\<open>TypeError\<close> otherwise.
\<close>

fun py_iter :: "json \<Rightarrow> error + json list" where
  "py_iter (JList xs) = Inr xs"
| "py_iter (JDict kvs) = Inr (map (\<lambda>kv. JStr (fst kv)) kvs)"
| "py_iter (JStr s) = Inr (map (\<lambda>c. JStr [c]) s)"
| "py_iter JNull = Inl TypeError"
| "py_iter (JBool b) = Inl TypeError"
| "py_iter (JNum n) = Inl TypeError"

text \<open>\<^verbatim>\<open>path.split(".")\<close>: never the empty list; \<^verbatim>\<open>"".split(".") == [""]\<close>.\<close>

fun split_on :: "char \<Rightarrow> string \<Rightarrow> string list" where
  "split_on sep [] = [[]]"
| "split_on sep (c # cs) =
     (if c = sep then [] # split_on sep cs
      else (case split_on sep cs of
              [] \<Rightarrow> [[c]]
            | w # ws \<Rightarrow> (c # w) # ws))"

definition split_dot :: "string \<Rightarrow> string list" where
  "split_dot path = split_on (CHR ''.'') path"

section \<open>Path resolver\<close>

text \<open>
  \<^verbatim>\<open>GraphBuilder._recursive_key_check(keys, item)\<close>. With more than one key left:
  \<^verbatim>\<open>keys[0] in item\<close>, then the recursive call on \<^verbatim>\<open>item[key]\<close>; with one key
  left: \<^verbatim>\<open>keys[0] in item\<close>. On the empty list \<^verbatim>\<open>keys[0]\<close> raises
  \<^verbatim>\<open>IndexError\<close>. The source pops the head of the list it was given; every caller
  passes a fresh \<^verbatim>\<open>split\<close> result.
\<close>

fun recursive_key_check :: "string list \<Rightarrow> json \<Rightarrow> error + bool" where
  "recursive_key_check [] item = Inl IndexError"
| "recursive_key_check [k] item = py_contains k item"
| "recursive_key_check (k # k' # ks) item =
     (case py_contains k item of
        Inl e \<Rightarrow> Inl e
      | Inr True \<Rightarrow>
          (case py_getitem item k of
             Inl e \<Rightarrow> Inl e
           | Inr v \<Rightarrow> recursive_key_check (k' # ks) v)
      | Inr False \<Rightarrow> Inr False)"

text \<open>
  \<^verbatim>\<open>GraphBuilder._recursive_get_value(keys, item)\<close>; Python's \<open>None\<close> is
  \<open>JNull\<close>.
\<close>

fun recursive_get_value :: "string list \<Rightarrow> json \<Rightarrow> error + json" where
  "recursive_get_value [] item = Inl IndexError"
| "recursive_get_value [k] item =
     (case py_contains k item of
        Inl e \<Rightarrow> Inl e
      | Inr True \<Rightarrow> py_getitem item k
      | Inr False \<Rightarrow> Inr JNull)"
| "recursive_get_value (k # k' # ks) item =
     (case py_contains k item of
        Inl e \<Rightarrow> Inl e
      | Inr True \<Rightarrow>
          (case py_getitem item k of
             Inl e \<Rightarrow> Inl e
           | Inr v \<Rightarrow> recursive_get_value (k' # ks) v)
      | Inr False \<Rightarrow> Inr JNull)"

text \<open>
  The records a path walks through while every segment is found: \<open>walk ks item\<close> is
  the value reached after following \<open>ks\<close> through nested dicts, \<open>None\<close> as soon as
  a segment is missing from a dict or the value reached is not a dict.
\<close>

fun walk :: "string list \<Rightarrow> json \<Rightarrow> json option" where
  "walk [] item = Some item"
| "walk (k # ks) (JDict kvs) = (case map_of kvs k of Some v \<Rightarrow> walk ks v | None \<Rightarrow> None)"
| "walk (k # ks) item = None"

section \<open>Mapping and compiled representation\<close>

text \<open>
  The mapping is the parsed YAML file. Keys the code reads unconditionally are plain
  fields; keys it tests with \<^verbatim>\<open>'k' in node\<close> are options. A dict of property
  declarations is an association list in file order.
\<close>

record propdef =
  pd_key :: string
  pd_type :: string

record nodedef =
  nd_id :: string
  nd_nodeType :: string
  nd_labels :: "string list"
  nd_required :: bool
  nd_properties :: "(string \<times> propdef) list option"
  nd_uniqueProperties :: "string list option"
  nd_requiredProperties :: "string list option"
  nd_uniqueLabels :: "string list option"
  nd_iterator :: "string option"

record reldef =
  rd_type :: string
  rd_relationshipType :: string
  rd_directionality :: string
  rd_sourceNode :: string
  rd_destinationNode :: string
  rd_required :: bool
  rd_unique :: "bool option"
  rd_properties :: "(string \<times> propdef) list option"
  rd_uniqueProperties :: "string list option"
  rd_requiredProperties :: "string list option"

record mapping =
  m_index :: string
  m_docType :: string
  m_nodes :: "nodedef list"
  m_relationships :: "reldef list"

text \<open>A compiled property \<^verbatim>\<open>{"value": ..., "type": ...}\<close> and a dict of them.\<close>

record propval =
  pv_value :: json
  pv_type :: string

type_synonym props = "(string \<times> propval) list"

text \<open>One instance of an iterator node.\<close>

record ninstance =
  ni_labels :: "string list"
  ni_uniqueLabels :: "string list option"
  ni_properties :: "props option"
  ni_uniqueProperties :: "props option"

text \<open>A compiled node: the dict \<^verbatim>\<open>new_node\<close>, an absent key is \<open>None\<close>.\<close>

record cnode =
  cn_nodeType :: string
  cn_labels :: "string list"
  cn_id :: string
  cn_properties :: "props option"
  cn_uniqueProperties :: "props option"
  cn_uniqueLabels :: "string list option"
  cn_instances :: "ninstance list option"

text \<open>One instance of an iterator relationship.\<close>

record rinstance =
  ri_type :: string
  ri_directionality :: string
  ri_unique :: "bool option"
  ri_properties :: "props option"
  ri_uniqueProperties :: "props option"

text \<open>A compiled relationship: the dict \<^verbatim>\<open>new_relationship\<close>.\<close>

record crel =
  cr_type :: string
  cr_relationshipType :: string
  cr_directionality :: "string option"
  cr_unique :: "bool option"
  cr_sourceNode :: "cnode option"
  cr_destinationNode :: "cnode option"
  cr_properties :: "props option"
  cr_uniqueProperties :: "props option"
  cr_instances :: "rinstance list option"

text \<open>\<^verbatim>\<open>'k' in d and key in d['k']\<close> for an optional list of names.\<close>

fun in_opt :: "string \<Rightarrow> string list option \<Rightarrow> bool" where
  "in_opt name None = False"
| "in_opt name (Some names) = (name \<in> set names)"

section \<open>Node compiler\<close>

text \<open>
  The property loop of \<^verbatim>\<open>GraphBuilder._gen_standard_node\<close>, carrying
  \<^verbatim>\<open>properties\<close>, \<^verbatim>\<open>unique_properties\<close> and \<^verbatim>\<open>valid\<close>. A missing required
  property sets \<^verbatim>\<open>valid = False\<close> and the loop goes on to the next key: this loop has
  no \<^verbatim>\<open>break\<close>. Logger calls are left out.
\<close>

fun std_node_props ::
  "json \<Rightarrow> nodedef \<Rightarrow> (string \<times> propdef) list \<Rightarrow> props \<times> props \<times> bool
     \<Rightarrow> error + (props \<times> props \<times> bool)" where
  "std_node_props doc node [] st = Inr st"
| "std_node_props doc node ((name, pd) # rest) (properties, unique_properties, valid) =
     (case recursive_key_check (split_dot (pd_key pd)) doc of
        Inl e \<Rightarrow> Inl e
      | Inr True \<Rightarrow>
          (case recursive_get_value (split_dot (pd_key pd)) doc of
             Inl e \<Rightarrow> Inl e
           | Inr v \<Rightarrow>
               (let pv = \<lparr>pv_value = v, pv_type = pd_type pd\<rparr> in
                std_node_props doc node rest
                  (AList.update name pv properties,
                   (if in_opt name (nd_uniqueProperties node)
                    then AList.update name pv unique_properties
                    else unique_properties),
                   valid)))
      | Inr False \<Rightarrow>
          (if in_opt name (nd_requiredProperties node)
           then std_node_props doc node rest (properties, unique_properties, False)
           else std_node_props doc node rest (properties, unique_properties, valid)))"

text \<open>\<^verbatim>\<open>GraphBuilder._gen_standard_node(doc, node, new_node)\<close>.\<close>

definition gen_standard_node :: "json \<Rightarrow> nodedef \<Rightarrow> cnode \<Rightarrow> error + (cnode \<times> bool)" where
  "gen_standard_node doc node new_node =
     (case (case nd_properties node of
              None \<Rightarrow> Inr ([], [], True)
            | Some ps \<Rightarrow> std_node_props doc node ps ([], [], True)) of
        Inl e \<Rightarrow> Inl e
      | Inr (properties, unique_properties, valid) \<Rightarrow>
          (if valid then
             (let n1 = (if length properties > 0
                        then new_node\<lparr>cn_properties := Some properties\<rparr> else new_node);
                  n2 = (if length unique_properties > 0
                        then n1\<lparr>cn_uniqueProperties := Some unique_properties\<rparr> else n1);
                  n3 = (case nd_uniqueLabels node of
                          Some ul \<Rightarrow> n2\<lparr>cn_uniqueLabels := Some ul\<rparr>
                        | None \<Rightarrow> n2)
              in Inr (n3, True))
           else Inr (new_node, False)))"

text \<open>
  The property loop of one instance in \<^verbatim>\<open>GraphBuilder._gen_iterative_node\<close>:
  a path found in the document wins, then the \<^verbatim>\<open>ITER!\<close> sentinel binds the current
  element, then a missing required property ends the loop (\<^verbatim>\<open>break\<close>).
\<close>

fun iter_node_props ::
  "json \<Rightarrow> nodedef \<Rightarrow> json \<Rightarrow> (string \<times> propdef) list \<Rightarrow> props \<times> props \<times> bool
     \<Rightarrow> error + (props \<times> props \<times> bool)" where
  "iter_node_props doc node val [] st = Inr st"
| "iter_node_props doc node val ((name, pd) # rest) (properties, unique_properties, valid) =
     (case recursive_key_check (split_dot (pd_key pd)) doc of
        Inl e \<Rightarrow> Inl e
      | Inr True \<Rightarrow>
          (case recursive_get_value (split_dot (pd_key pd)) doc of
             Inl e \<Rightarrow> Inl e
           | Inr v \<Rightarrow>
               (let pv = \<lparr>pv_value = v, pv_type = pd_type pd\<rparr> in
                iter_node_props doc node val rest
                  (AList.update name pv properties,
                   (if in_opt name (nd_uniqueProperties node)
                    then AList.update name pv unique_properties
                    else unique_properties),
                   valid)))
      | Inr False \<Rightarrow>
          (if pd_key pd = ''ITER!'' then
             (let pv = \<lparr>pv_value = val, pv_type = pd_type pd\<rparr> in
              iter_node_props doc node val rest
                (AList.update name pv properties,
                 (if in_opt name (nd_uniqueProperties node)
                  then AList.update name pv unique_properties
                  else unique_properties),
                 valid))
           else if in_opt name (nd_requiredProperties node)
           then Inr (properties, unique_properties, False)
           else iter_node_props doc node val rest (properties, unique_properties, valid)))"

text \<open>The loop over the elements of the iterated value, appending to \<^verbatim>\<open>node_list\<close>.\<close>

fun iter_node_instances ::
  "json \<Rightarrow> nodedef \<Rightarrow> json list \<Rightarrow> ninstance list \<Rightarrow> error + ninstance list" where
  "iter_node_instances doc node [] node_list = Inr node_list"
| "iter_node_instances doc node (val # vals) node_list =
     (let node_instance =
            \<lparr>ni_labels = nd_labels node, ni_uniqueLabels = nd_uniqueLabels node,
             ni_properties = None, ni_uniqueProperties = None\<rparr>
      in case (case nd_properties node of
                 None \<Rightarrow> Inr ([], [], True)
               | Some ps \<Rightarrow> iter_node_props doc node val ps ([], [], True)) of
           Inl e \<Rightarrow> Inl e
         | Inr (properties, unique_properties, valid) \<Rightarrow>
             (if valid then
                (let i1 = (if length properties > 0
                           then node_instance\<lparr>ni_properties := Some properties\<rparr>
                           else node_instance);
                     i2 = (if length unique_properties > 0
                           then i1\<lparr>ni_uniqueProperties := Some unique_properties\<rparr>
                           else i1)
                 in iter_node_instances doc node vals (node_list @ [i2]))
              else iter_node_instances doc node vals node_list))"

text \<open>
  \<^verbatim>\<open>GraphBuilder._gen_iterative_node(doc, node, new_node)\<close>;
  \<^verbatim>\<open>node['iterator']\<close> raises \<^verbatim>\<open>KeyError\<close> when the mapping has no such key.
\<close>

definition gen_iterative_node :: "json \<Rightarrow> nodedef \<Rightarrow> cnode \<Rightarrow> error + (cnode \<times> bool)" where
  "gen_iterative_node doc node new_node =
     (case nd_iterator node of
        None \<Rightarrow> Inl KeyError
      | Some path \<Rightarrow>
          (case (case recursive_key_check (split_dot path) doc of
                   Inl e \<Rightarrow> Inl e
                 | Inr False \<Rightarrow> Inr []
                 | Inr True \<Rightarrow>
                     (case recursive_get_value (split_dot path) doc of
                        Inl e \<Rightarrow> Inl e
                      | Inr arr \<Rightarrow>
                          (case py_iter arr of
                             Inl e \<Rightarrow> Inl e
                           | Inr vals \<Rightarrow> iter_node_instances doc node vals []))) of
             Inl e \<Rightarrow> Inl e
           | Inr node_list \<Rightarrow>
               (if length node_list > 0
                then Inr (new_node\<lparr>cn_instances := Some node_list\<rparr>, True)
                else Inr (new_node, False))))"

text \<open>
  \<^verbatim>\<open>GraphBuilder._gen_nodes(doc)\<close>: the loop over the mapping's nodes; an invalid
  required node ends it (\<^verbatim>\<open>break\<close>) with \<^verbatim>\<open>valid_doc = False\<close>.
\<close>

fun gen_nodes_loop :: "json \<Rightarrow> nodedef list \<Rightarrow> cnode list \<Rightarrow> error + (cnode list \<times> bool)" where
  "gen_nodes_loop doc [] nodes = Inr (nodes, True)"
| "gen_nodes_loop doc (node # rest) nodes =
     (let new_node =
            \<lparr>cn_nodeType = nd_nodeType node, cn_labels = nd_labels node, cn_id = nd_id node,
             cn_properties = None, cn_uniqueProperties = None, cn_uniqueLabels = None,
             cn_instances = None\<rparr>
      in case (if nd_nodeType node = ''standard'' then gen_standard_node doc node new_node
               else if nd_nodeType node = ''iterator'' then gen_iterative_node doc node new_node
               else Inr (new_node, False)) of
           Inl e \<Rightarrow> Inl e
         | Inr (new_node', valid) \<Rightarrow>
             (if valid then gen_nodes_loop doc rest (nodes @ [new_node'])
              else if nd_required node then Inr (nodes, False)
              else gen_nodes_loop doc rest nodes))"

definition gen_nodes :: "mapping \<Rightarrow> json \<Rightarrow> error + (cnode list \<times> bool)" where
  "gen_nodes m doc = gen_nodes_loop doc (m_nodes m) []"

section \<open>Relationship compiler\<close>

text \<open>
  The inner loop \<^verbatim>\<open>for node in nodes\<close> of
  \<^verbatim>\<open>GraphBuilder._gen_standard_relationship\<close>, for one endpoint: every node whose
  id matches is stored (the last one stays) and sets \<^verbatim>\<open>node_found\<close>.
\<close>

fun find_endpoint :: "string \<Rightarrow> cnode list \<Rightarrow> cnode option \<times> bool \<Rightarrow> cnode option \<times> bool" where
  "find_endpoint rid [] st = st"
| "find_endpoint rid (node # nodes) (slot, node_found) =
     (if cn_id node = rid then find_endpoint rid nodes (Some node, True)
      else find_endpoint rid nodes (slot, node_found))"

text \<open>
  The property loop of a relationship; \<^verbatim>\<open>_gen_standard_relationship\<close> and
  \<^verbatim>\<open>_gen_iterative_relationship\<close> contain the same text. A path found in the
  document is stored; a missing required property ends the loop (\<^verbatim>\<open>break\<close>); then,
  outside that \<^verbatim>\<open>if\<close>, a key listed in \<^verbatim>\<open>uniqueProperties\<close> copies
  \<^verbatim>\<open>properties[key]\<close>, which raises \<^verbatim>\<open>KeyError\<close> when the key was not stored.
\<close>

fun rel_props ::
  "json \<Rightarrow> reldef \<Rightarrow> (string \<times> propdef) list \<Rightarrow> props \<times> props \<times> bool
     \<Rightarrow> error + (props \<times> props \<times> bool)" where
  "rel_props doc relationship [] st = Inr st"
| "rel_props doc relationship ((name, pd) # rest) (properties, unique_properties, valid) =
     (case recursive_key_check (split_dot (pd_key pd)) doc of
        Inl e \<Rightarrow> Inl e
      | Inr found \<Rightarrow>
          (case (if found then
                   (case recursive_get_value (split_dot (pd_key pd)) doc of
                      Inl e \<Rightarrow> Inl e
                    | Inr v \<Rightarrow>
                        Inr (Some (AList.update name
                                     \<lparr>pv_value = v, pv_type = pd_type pd\<rparr> properties)))
                 else if in_opt name (rd_requiredProperties relationship) then Inr None
                 else Inr (Some properties)) of
             Inl e \<Rightarrow> Inl e
           | Inr None \<Rightarrow> Inr (properties, unique_properties, False)
           | Inr (Some properties') \<Rightarrow>
               (if in_opt name (rd_uniqueProperties relationship) then
                  (case map_of properties' name of
                     None \<Rightarrow> Inl KeyError
                   | Some pv \<Rightarrow>
                       rel_props doc relationship rest
                         (properties', AList.update name pv unique_properties, valid))
                else rel_props doc relationship rest (properties', unique_properties, valid))))"

text \<open>\<^verbatim>\<open>GraphBuilder._gen_standard_relationship(doc, relationship, nodes, new_relationship)\<close>.\<close>

definition gen_standard_relationship ::
  "json \<Rightarrow> reldef \<Rightarrow> cnode list \<Rightarrow> crel \<Rightarrow> error + (crel \<times> bool)" where
  "gen_standard_relationship doc relationship nodes new_relationship =
     (let r0 = new_relationship\<lparr>cr_directionality := Some (rd_directionality relationship)\<rparr>;
          r1 = (case rd_unique relationship of
                  Some u \<Rightarrow> r0\<lparr>cr_unique := Some u\<rparr>
                | None \<Rightarrow> r0);
          src = find_endpoint (rd_sourceNode relationship) nodes (cr_sourceNode r1, False);
          r2 = r1\<lparr>cr_sourceNode := fst src\<rparr>;
          dst = find_endpoint (rd_destinationNode relationship) nodes
                  (cr_destinationNode r2, False);
          r3 = r2\<lparr>cr_destinationNode := fst dst\<rparr>
      in if snd src \<and> snd dst then
           (case (case rd_properties relationship of
                    None \<Rightarrow> Inr ([], [], True)
                  | Some ps \<Rightarrow> rel_props doc relationship ps ([], [], True)) of
              Inl e \<Rightarrow> Inl e
            | Inr (properties, unique_properties, valid) \<Rightarrow>
                (if valid then
                   (let r4 = (if length properties > 0
                              then r3\<lparr>cr_properties := Some properties\<rparr> else r3);
                        r5 = (if length unique_properties > 0
                              then r4\<lparr>cr_uniqueProperties := Some unique_properties\<rparr>
                              else r4)
                    in Inr (r5, True))
                 else Inr (r3, False)))
         else Inr (r3, False))"

text \<open>
  The inner loop of \<^verbatim>\<open>GraphBuilder._gen_iterative_relationship\<close> for one endpoint;
  it also counts the matching nodes of type iterator and keeps the last of them.
\<close>

fun find_iter_endpoint ::
  "string \<Rightarrow> cnode list \<Rightarrow> cnode option \<times> bool \<times> nat \<times> cnode option
     \<Rightarrow> cnode option \<times> bool \<times> nat \<times> cnode option" where
  "find_iter_endpoint rid [] st = st"
| "find_iter_endpoint rid (node # nodes) (slot, node_found, iterative_nodes, iterative_node) =
     (if cn_id node = rid then
        (if cn_nodeType node = ''iterator''
         then find_iter_endpoint rid nodes (Some node, True, iterative_nodes + 1, Some node)
         else find_iter_endpoint rid nodes (Some node, True, iterative_nodes, iterative_node))
      else find_iter_endpoint rid nodes (slot, node_found, iterative_nodes, iterative_node))"

text \<open>
  The loop \<^verbatim>\<open>for i in range(0, len(iterative_node['instances']))\<close>: the first
  argument is the number of rounds left. The body reads the document and the mapping,
  never \<^verbatim>\<open>i\<close> or the node instance.
\<close>

fun rel_instances_loop ::
  "nat \<Rightarrow> json \<Rightarrow> reldef \<Rightarrow> rinstance list \<Rightarrow> error + rinstance list" where
  "rel_instances_loop 0 doc relationship instances = Inr instances"
| "rel_instances_loop (Suc n) doc relationship instances =
     (let inst = \<lparr>ri_type = rd_type relationship,
                   ri_directionality = rd_directionality relationship,
                   ri_unique = rd_unique relationship,
                   ri_properties = None, ri_uniqueProperties = None\<rparr>
      in case (case rd_properties relationship of
                 None \<Rightarrow> Inr ([], [], True)
               | Some ps \<Rightarrow> rel_props doc relationship ps ([], [], True)) of
           Inl e \<Rightarrow> Inl e
         | Inr (properties, unique_properties, valid) \<Rightarrow>
             (if valid then
                (let i1 = (if length properties > 0
                           then inst\<lparr>ri_properties := Some properties\<rparr> else inst);
                     i2 = (if length unique_properties > 0
                           then i1\<lparr>ri_uniqueProperties := Some unique_properties\<rparr>
                           else i1)
                 in rel_instances_loop n doc relationship (instances @ [i2]))
              else rel_instances_loop n doc relationship instances))"

text \<open>
  \<^verbatim>\<open>GraphBuilder._gen_iterative_relationship(doc, relationship, nodes, new_relationship)\<close>.
  \<^verbatim>\<open>iterative_node['instances']\<close> raises \<^verbatim>\<open>KeyError\<close> when the node has no
  instance list.
\<close>

definition gen_iterative_relationship ::
  "json \<Rightarrow> reldef \<Rightarrow> cnode list \<Rightarrow> crel \<Rightarrow> error + (crel \<times> bool)" where
  "gen_iterative_relationship doc relationship nodes new_relationship =
     (case find_iter_endpoint (rd_sourceNode relationship) nodes
             (cr_sourceNode new_relationship, False, 0, None) of
        (src, src_found, n1, it1) \<Rightarrow>
     (case find_iter_endpoint (rd_destinationNode relationship) nodes
             (cr_destinationNode new_relationship, False, n1, it1) of
        (dst, dst_found, iterative_nodes, iterative_node) \<Rightarrow>
     (let r2 = new_relationship\<lparr>cr_sourceNode := src, cr_destinationNode := dst\<rparr>;
          valid_iter = (src_found \<and> dst_found \<and> iterative_nodes \<noteq> 0
                          \<and> \<not> iterative_nodes > 1)
      in case (if valid_iter then
                 (case iterative_node of
                    None \<Rightarrow> Inl TypeError
                  | Some itn \<Rightarrow>
                      (case cn_instances itn of
                         None \<Rightarrow> Inl KeyError
                       | Some node_instances \<Rightarrow>
                           rel_instances_loop (length node_instances) doc relationship []))
               else Inr []) of
           Inl e \<Rightarrow> Inl e
         | Inr instances \<Rightarrow>
             (if length instances > 0
              then Inr (r2\<lparr>cr_instances := Some instances\<rparr>, valid_iter)
              else Inr (r2, False)))))"

text \<open>\<^verbatim>\<open>GraphBuilder._gen_relationships(doc, nodes)\<close>.\<close>

fun gen_relationships_loop ::
  "json \<Rightarrow> cnode list \<Rightarrow> reldef list \<Rightarrow> crel list \<Rightarrow> error + (crel list \<times> bool)" where
  "gen_relationships_loop doc nodes [] relationships = Inr (relationships, True)"
| "gen_relationships_loop doc nodes (relationship # rest) relationships =
     (let new_relationship =
            \<lparr>cr_type = rd_type relationship,
             cr_relationshipType = rd_relationshipType relationship,
             cr_directionality = None, cr_unique = None, cr_sourceNode = None,
             cr_destinationNode = None, cr_properties = None, cr_uniqueProperties = None,
             cr_instances = None\<rparr>
      in case (if rd_relationshipType relationship = ''standard''
               then gen_standard_relationship doc relationship nodes new_relationship
               else if rd_relationshipType relationship = ''iterator''
               then gen_iterative_relationship doc relationship nodes new_relationship
               else Inr (new_relationship, False)) of
           Inl e \<Rightarrow> Inl e
         | Inr (new_relationship', valid) \<Rightarrow>
             (if valid then gen_relationships_loop doc nodes rest (relationships @ [new_relationship'])
              else if rd_required relationship then Inr (relationships, False)
              else gen_relationships_loop doc nodes rest relationships))"

definition gen_relationships :: "mapping \<Rightarrow> json \<Rightarrow> cnode list \<Rightarrow> error + (crel list \<times> bool)" where
  "gen_relationships m doc nodes = gen_relationships_loop doc nodes (m_relationships m) []"

section \<open>Document pipeline\<close>

text \<open>
  The processing modules loaded from the \<^verbatim>\<open>processors\<close> folder, one list per stage,
  in load order. A module's function is opaque; it may raise.
\<close>

record hooks =
  pre_modules :: "(json \<Rightarrow> error + json) list"
  post_node_modules :: "(cnode list \<Rightarrow> error + cnode list) list"
  post_relationship_modules :: "(crel list \<Rightarrow> error + crel list) list"

text \<open>Applying the modules of one stage in order, each to the previous one's result.\<close>

fun run_modules :: "('a \<Rightarrow> error + 'a) list \<Rightarrow> 'a \<Rightarrow> error + 'a" where
  "run_modules [] x = Inr x"
| "run_modules (f # fs) x = (case f x of Inl e \<Rightarrow> Inl e | Inr y \<Rightarrow> run_modules fs y)"

definition pre_process_doc :: "hooks \<Rightarrow> json \<Rightarrow> error + json" where
  "pre_process_doc h doc = run_modules (pre_modules h) doc"

definition post_process_nodes :: "hooks \<Rightarrow> cnode list \<Rightarrow> error + cnode list" where
  "post_process_nodes h nodes = run_modules (post_node_modules h) nodes"

definition post_process_relationships :: "hooks \<Rightarrow> crel list \<Rightarrow> error + crel list" where
  "post_process_relationships h relationships =
     run_modules (post_relationship_modules h) relationships"

text \<open>
  \<^verbatim>\<open>GraphBuilder._process(data)\<close>: the loop over the hits. A document whose nodes
  or relationships come back invalid is only logged; the two lists are extended in the
  innermost branch alone.
\<close>

fun process_loop ::
  "hooks \<Rightarrow> mapping \<Rightarrow> json list \<Rightarrow> cnode list \<times> crel list
     \<Rightarrow> error + (cnode list \<times> crel list)" where
  "process_loop h m [] acc = Inr acc"
| "process_loop h m (hit # rest) (nodes, relationships) =
     (case py_getitem hit ''_source'' of
        Inl e \<Rightarrow> Inl e
      | Inr src \<Rightarrow>
     (case pre_process_doc h src of
        Inl e \<Rightarrow> Inl e
      | Inr doc \<Rightarrow>
     (case gen_nodes m doc of
        Inl e \<Rightarrow> Inl e
      | Inr (doc_nodes, nodes_valid) \<Rightarrow>
          (if nodes_valid then
             (case post_process_nodes h doc_nodes of
                Inl e \<Rightarrow> Inl e
              | Inr doc_nodes' \<Rightarrow>
             (case gen_relationships m doc doc_nodes' of
                Inl e \<Rightarrow> Inl e
              | Inr (doc_relationships, rels_valid) \<Rightarrow>
                  (if rels_valid then
                     (case post_process_relationships h doc_relationships of
                        Inl e \<Rightarrow> Inl e
                      | Inr doc_relationships' \<Rightarrow>
                          process_loop h m rest
                            (nodes @ doc_nodes', relationships @ doc_relationships'))
                   else process_loop h m rest (nodes, relationships))))
           else process_loop h m rest (nodes, relationships)))))"

definition process :: "hooks \<Rightarrow> mapping \<Rightarrow> json list \<Rightarrow> error + (cnode list \<times> crel list)" where
  "process h m data = process_loop h m data ([], [])"

section \<open>Value formatter\<close>

text \<open>Decimal digits of a number, as \<^verbatim>\<open>str\<close> prints an \<^verbatim>\<open>int\<close>.\<close>

definition digit_char :: "nat \<Rightarrow> char" where
  "digit_char d =
     (if d = 0 then CHR ''0'' else if d = 1 then CHR ''1'' else if d = 2 then CHR ''2''
      else if d = 3 then CHR ''3'' else if d = 4 then CHR ''4'' else if d = 5 then CHR ''5''
      else if d = 6 then CHR ''6'' else if d = 7 then CHR ''7'' else if d = 8 then CHR ''8''
      else CHR ''9'')"

fun show_nat :: "nat \<Rightarrow> string" where
  "show_nat n =
     (if n < 10 then [digit_char n]
      else show_nat (n div 10) @ [digit_char (n mod 10)])"

definition show_int :: "int \<Rightarrow> string" where
  "show_int i = (if i < 0 then ''-'' @ show_nat (nat (- i)) else show_nat (nat i))"

fun join_with :: "string \<Rightarrow> string list \<Rightarrow> string" where
  "join_with sep [] = []"
| "join_with sep [x] = x"
| "join_with sep (x # y # ys) = x @ sep @ join_with sep (y # ys)"

text \<open>
  \<^verbatim>\<open>repr(value)\<close>, which \<^verbatim>\<open>str\<close> applies to the elements of a list or dict. A
  string is put between single quotes; Python's escaping of quotes, backslashes and
  unprintable characters inside such a nested string is not modelled.
\<close>

fun py_repr :: "json \<Rightarrow> string" where
  "py_repr JNull = ''None''"
| "py_repr (JBool b) = (if b then ''True'' else ''False'')"
| "py_repr (JNum n) = show_int n"
| "py_repr (JStr s) = [CHR 0x27] @ s @ [CHR 0x27]"
| "py_repr (JList xs) = ''['' @ join_with '', '' (map py_repr xs) @ '']''"
| "py_repr (JDict kvs) =
     ''{'' @ join_with '', ''
              (map (\<lambda>kv. [CHR 0x27] @ fst kv @ [CHR 0x27] @ '': '' @ py_repr (snd kv)) kvs)
       @ ''}''"

text \<open>\<^verbatim>\<open>"{}".format(value)\<close>, that is \<^verbatim>\<open>str(value)\<close>.\<close>

fun py_str :: "json \<Rightarrow> string" where
  "py_str (JStr s) = s"
| "py_str v = py_repr v"

text \<open>
  \<^verbatim>\<open>GraphBuilder._get_property_value(prop)\<close>, followed by the \<^verbatim>\<open>"{}".format\<close>
  every caller applies to its result.
\<close>

definition get_property_value :: "propval \<Rightarrow> string" where
  \<open>get_property_value prop =
     (if pv_type prop = ''number'' then py_str (pv_value prop)
      else if pv_type prop = ''datetime'' then ''datetime("'' @ py_str (pv_value prop) @ ''")''
      else if pv_type prop = ''list'' then py_str (pv_value prop)
      else ''"'' @ py_str (pv_value prop) @ ''"'')\<close>

section \<open>Statement generator\<close>

text \<open>\<^verbatim>\<open>GraphBuilder._gen_label_string(labels)\<close>.\<close>

fun gen_label_string :: "string list \<Rightarrow> string" where
  "gen_label_string [] = []"
| "gen_label_string (label # labels) = '':'' @ label @ gen_label_string labels"

text \<open>\<^verbatim>\<open>GraphBuilder._get_missing_labels(labels, unique_labels)\<close>.\<close>

fun get_missing_labels :: "string list \<Rightarrow> string list \<Rightarrow> string list" where
  "get_missing_labels [] unique_labels = []"
| "get_missing_labels (label # labels) unique_labels =
     (if label \<notin> set unique_labels then label # get_missing_labels labels unique_labels
      else get_missing_labels labels unique_labels)"

text \<open>
  The loop over \<^verbatim>\<open>enumerate(properties.keys())\<close> in
  \<^verbatim>\<open>_gen_properties_string\<close>: one item per property, the separator after every item
  but the last.
\<close>

fun prop_items :: "(string \<Rightarrow> propval \<Rightarrow> string) \<Rightarrow> string \<Rightarrow> props \<Rightarrow> string" where
  "prop_items item sep [] = []"
| "prop_items item sep [(name, pv)] = item name pv"
| "prop_items item sep ((name, pv) # p # ps) =
     item name pv @ sep @ prop_items item sep (p # ps)"

text \<open>
  \<^verbatim>\<open>GraphBuilder._gen_properties_string(properties, dict_style, match_logic, variable,
  opening_statement)\<close>.
\<close>

definition gen_properties_string :: "props \<Rightarrow> bool \<Rightarrow> bool \<Rightarrow> string \<Rightarrow> bool \<Rightarrow> string" where
  "gen_properties_string properties dict_style match_logic variable opening_statement =
     (if dict_style then
        '' {'' @ prop_items (\<lambda>name pv. name @ '': '' @ get_property_value pv) '', '' properties
          @ ''}''
      else
        (if length properties > 0 then
           (if match_logic then (if opening_statement then '' WHERE '' else [])
            else '' SET '')
         else [])
        @ prop_items (\<lambda>name pv. variable @ ''.'' @ name @ '' = '' @ get_property_value pv)
            (if match_logic then '' AND '' else '', '') properties)"

text \<open>
  The loop building \<^verbatim>\<open>need_to_set\<close> in \<^verbatim>\<open>_gen_standard_node_statements\<close>, and
  \<^verbatim>\<open>GraphBuilder._get_missing_props\<close>, which has the same body: every property
  that is not a key of the unique properties, with its value from \<^verbatim>\<open>properties\<close>.
\<close>

fun get_missing_props :: "props \<Rightarrow> props \<Rightarrow> props \<Rightarrow> props" where
  "get_missing_props [] unique_properties need_to_set = need_to_set"
| "get_missing_props ((name, pv) # rest) unique_properties need_to_set =
     (if name \<notin> set (map fst unique_properties)
      then get_missing_props rest unique_properties (AList.update name pv need_to_set)
      else get_missing_props rest unique_properties need_to_set)"

text \<open>
  The loop building \<^verbatim>\<open>need_to_set\<close> in \<^verbatim>\<open>_gen_iterator_node_statements\<close>: for
  a property that is not a key of the unique properties it reads
  \<^verbatim>\<open>instance['uniqueProperties'][prop]\<close>.
\<close>

fun iterator_need_to_set :: "props \<Rightarrow> props \<Rightarrow> props \<Rightarrow> error + props" where
  "iterator_need_to_set [] unique_properties need_to_set = Inr need_to_set"
| "iterator_need_to_set ((name, pv) # rest) unique_properties need_to_set =
     (if name \<notin> set (map fst unique_properties) then
        (case map_of unique_properties name of
           None \<Rightarrow> Inl KeyError
         | Some upv \<Rightarrow>
             iterator_need_to_set rest unique_properties (AList.update name upv need_to_set))
      else iterator_need_to_set rest unique_properties need_to_set)"

text \<open>
  \<^verbatim>\<open>GraphBuilder._gen_standard_node_statements(node)\<close>; \<^verbatim>\<open>node['properties']\<close>
  raises \<^verbatim>\<open>KeyError\<close> when the node has unique properties and no properties.
\<close>

definition gen_standard_node_statements :: "cnode \<Rightarrow> error + string list" where
  "gen_standard_node_statements node =
     (case cn_uniqueProperties node of
        Some unique_properties \<Rightarrow>
          (let not_in_unique = (case cn_uniqueLabels node of
                                  Some ul \<Rightarrow> get_missing_labels (cn_labels node) ul
                                | None \<Rightarrow> []);
               st1 = (case cn_uniqueLabels node of
                        Some ul \<Rightarrow> ''MERGE (n'' @ gen_label_string ul
                      | None \<Rightarrow> ''MERGE (n'' @ gen_label_string (cn_labels node));
               st2 = st1 @ gen_properties_string unique_properties True False ''n'' True @ '')''
           in case cn_properties node of
                None \<Rightarrow> Inl KeyError
              | Some properties \<Rightarrow>
                  (let need_to_set = get_missing_props properties unique_properties [];
                       st3 = (if length need_to_set > 0
                              then st2 @ gen_properties_string need_to_set False False ''n'' True
                              else st2);
                       st4 = (if length not_in_unique > 0 then
                                (if length need_to_set > 0
                                 then st3 @ '', n'' @ gen_label_string not_in_unique
                                 else st3 @ ''SET n'' @ gen_label_string not_in_unique)
                              else st3)
                   in Inr [st4]))
      | None \<Rightarrow>
          (let not_in_unique = (case cn_uniqueLabels node of
                                  Some ul \<Rightarrow> get_missing_labels (cn_labels node) ul
                                | None \<Rightarrow> []);
               st1 = (case cn_uniqueLabels node of
                        Some ul \<Rightarrow> ''MERGE (n'' @ gen_label_string ul
                      | None \<Rightarrow> ''CREATE (n'' @ gen_label_string (cn_labels node));
               st2 = (case cn_properties node of
                        Some properties \<Rightarrow>
                          st1 @ gen_properties_string properties True False ''n'' True
                      | None \<Rightarrow> st1);
               st3 = st2 @ '')'';
               st4 = (if length not_in_unique > 0
                      then st3 @ ''SET n'' @ gen_label_string not_in_unique else st3)
           in Inr [st4]))"

text \<open>The body of the loop of \<^verbatim>\<open>_gen_iterator_node_statements\<close> for one instance.\<close>

definition iterator_instance_statement :: "ninstance \<Rightarrow> error + string" where
  "iterator_instance_statement inst =
     (case ni_uniqueProperties inst of
        Some unique_properties \<Rightarrow>
          (let not_in_unique = (case ni_uniqueLabels inst of
                                  Some ul \<Rightarrow> get_missing_labels (ni_labels inst) ul
                                | None \<Rightarrow> []);
               st1 = (case ni_uniqueLabels inst of
                        Some ul \<Rightarrow> ''MERGE (n'' @ gen_label_string ul
                      | None \<Rightarrow> ''MERGE (n'' @ gen_label_string (ni_labels inst));
               st2 = st1 @ gen_properties_string unique_properties True False ''n'' True @ '')''
           in case ni_properties inst of
                None \<Rightarrow> Inl KeyError
              | Some properties \<Rightarrow>
                  (case iterator_need_to_set properties unique_properties [] of
                     Inl e \<Rightarrow> Inl e
                   | Inr need_to_set \<Rightarrow>
                       (let st3 = (if length need_to_set > 0
                                   then st2 @ gen_properties_string need_to_set False False ''n'' True
                                   else st2);
                            st4 = (if length not_in_unique > 0 then
                                     (if length need_to_set > 0
                                      then st3 @ '', n'' @ gen_label_string not_in_unique
                                      else st3 @ ''SET n'' @ gen_label_string not_in_unique)
                                   else st3)
                        in Inr st4)))
      | None \<Rightarrow>
          (let not_in_unique = (case ni_uniqueLabels inst of
                                  Some ul \<Rightarrow> get_missing_labels (ni_labels inst) ul
                                | None \<Rightarrow> []);
               st1 = (case ni_uniqueLabels inst of
                        Some ul \<Rightarrow> ''MERGE (n'' @ gen_label_string ul
                      | None \<Rightarrow> ''CREATE (n'' @ gen_label_string (ni_labels inst));
               st2 = (case ni_properties inst of
                        Some properties \<Rightarrow>
                          st1 @ gen_properties_string properties True False ''n'' True
                      | None \<Rightarrow> st1);
               st3 = st2 @ '')'';
               st4 = (if length not_in_unique > 0
                      then st3 @ ''SET n'' @ gen_label_string not_in_unique else st3)
           in Inr st4))"

text \<open>A loop that appends one statement per element, stopping at the first exception.\<close>

fun statements_loop :: "('a \<Rightarrow> error + string) \<Rightarrow> 'a list \<Rightarrow> string list \<Rightarrow> error + string list" where
  "statements_loop body [] statements = Inr statements"
| "statements_loop body (x # xs) statements =
     (case body x of
        Inl e \<Rightarrow> Inl e
      | Inr statement \<Rightarrow> statements_loop body xs (statements @ [statement]))"

text \<open>\<^verbatim>\<open>GraphBuilder._gen_iterator_node_statements(node)\<close>.\<close>

definition gen_iterator_node_statements :: "cnode \<Rightarrow> error + string list" where
  "gen_iterator_node_statements node =
     (case cn_instances node of
        None \<Rightarrow> Inl KeyError
      | Some instances \<Rightarrow> statements_loop iterator_instance_statement instances [])"

text \<open>
  The second half of the loop body of \<^verbatim>\<open>_gen_iterative_relationship_statements\<close>,
  from \<^verbatim>\<open>unique = ...\<close> to the end; both branches of the function contain the same
  text. It reads the relationship instance only.
\<close>

definition rel_instance_clause :: "rinstance \<Rightarrow> error + string" where
  "rel_instance_clause rel_instance =
     (let unique = ((case ri_unique rel_instance of Some u \<Rightarrow> u | None \<Rightarrow> False)
                      \<or> ri_uniqueProperties rel_instance \<noteq> None);
          st1 = (if unique then '' MERGE (s)'' else '' CREATE (s)'');
          arrow_open = (if ri_directionality rel_instance = ''>'' then ''-[r:'' else ''<-[r:'');
          arrow_close = (if ri_directionality rel_instance = ''>'' then '']->(d)'' else '']-(d)'')
      in case (case ri_uniqueProperties rel_instance of
                 Some unique_properties \<Rightarrow>
                   (if unique then
                      (case ri_properties rel_instance of
                         None \<Rightarrow> Inl KeyError
                       | Some properties \<Rightarrow>
                           Inr (get_missing_props properties unique_properties [],
                                st1 @ arrow_open @ ri_type rel_instance
                                  @ gen_properties_string unique_properties True False ''n'' True
                                  @ arrow_close))
                    else Inr ([], st1 @ arrow_open @ ri_type rel_instance @ arrow_close))
               | None \<Rightarrow> Inr ([], st1 @ arrow_open @ ri_type rel_instance @ arrow_close)) of
           Inl e \<Rightarrow> Inl e
         | Inr (need_to_set, st2) \<Rightarrow>
             (if length need_to_set > 0
              then Inr (st2 @ gen_properties_string need_to_set False False ''r'' True)
              else if \<not> unique then
                (case ri_properties rel_instance of
                   Some properties \<Rightarrow>
                     Inr (st2 @ gen_properties_string properties False False ''r'' True)
                 | None \<Rightarrow> Inr st2)
              else Inr st2))"

text \<open>
  The loop body of the first branch (the source node is the iterator node):
  the \<^verbatim>\<open>MATCH\<close> of the node instance as \<^verbatim>\<open>s\<close> and of the destination node as
  \<^verbatim>\<open>d\<close>, then the clause of the relationship instance.
\<close>

definition source_instance_statement :: "crel \<Rightarrow> ninstance \<times> rinstance \<Rightarrow> error + string" where
  "source_instance_statement relationship pair =
     (case pair of (node_instance, rel_instance) \<Rightarrow>
     (case cr_destinationNode relationship of
        None \<Rightarrow> Inl KeyError
      | Some dest \<Rightarrow>
     (let st1 = ''MATCH '' @ ''(s''
                  @ gen_label_string (case ni_uniqueLabels node_instance of
                                        Some ul \<Rightarrow> ul
                                      | None \<Rightarrow> ni_labels node_instance)
                  @ ''), '';
          st2 = st1 @ ''(d''
                  @ gen_label_string (case cn_uniqueLabels dest of
                                        Some ul \<Rightarrow> ul
                                      | None \<Rightarrow> cn_labels dest)
                  @ '') '';
          first_has_props = (ni_uniqueProperties node_instance \<noteq> None
                               \<or> ni_properties node_instance \<noteq> None);
          st3 = (case ni_uniqueProperties node_instance of
                   Some up \<Rightarrow> st2 @ gen_properties_string up False True ''s'' True
                 | None \<Rightarrow>
                     (case ni_properties node_instance of
                        Some ps \<Rightarrow> st2 @ gen_properties_string ps False True ''s'' True
                      | None \<Rightarrow> st2));
          st4 = (if first_has_props then st3 @ '' AND '' else st3)
      in case (case cn_uniqueProperties dest of
                 Some up \<Rightarrow>
                   (case cn_properties dest of
                      None \<Rightarrow> Inl KeyError
                    | Some ps \<Rightarrow>
                        Inr (st4 @ gen_properties_string ps False True ''d''
                                     (\<not> first_has_props)))
               | None \<Rightarrow>
                   (case cn_properties dest of
                      Some ps \<Rightarrow>
                        Inr (st4 @ gen_properties_string ps False True ''d''
                                     (\<not> first_has_props))
                    | None \<Rightarrow> Inr st4)) of
           Inl e \<Rightarrow> Inl e
         | Inr st5 \<Rightarrow>
             (case rel_instance_clause rel_instance of
                Inl e \<Rightarrow> Inl e
              | Inr clause \<Rightarrow> Inr (st5 @ clause)))))"

text \<open>
  The loop body of the second branch (the destination node is the iterator node): the
  source node as \<^verbatim>\<open>s\<close>, the node instance as \<^verbatim>\<open>d\<close>.
\<close>

definition destination_instance_statement ::
  "crel \<Rightarrow> ninstance \<times> rinstance \<Rightarrow> error + string" where
  "destination_instance_statement relationship pair =
     (case pair of (node_instance, rel_instance) \<Rightarrow>
     (case cr_sourceNode relationship of
        None \<Rightarrow> Inl KeyError
      | Some src \<Rightarrow>
     (let st1 = ''MATCH '' @ ''(s''
                  @ gen_label_string (case cn_uniqueLabels src of
                                        Some ul \<Rightarrow> ul
                                      | None \<Rightarrow> cn_labels src)
                  @ ''), '';
          st2 = st1 @ ''(d''
                  @ gen_label_string (case ni_uniqueLabels node_instance of
                                        Some ul \<Rightarrow> ul
                                      | None \<Rightarrow> ni_labels node_instance)
                  @ '') '';
          first_has_props = (cn_uniqueProperties src \<noteq> None \<or> cn_properties src \<noteq> None);
          st3 = (case cn_uniqueProperties src of
                   Some up \<Rightarrow> st2 @ gen_properties_string up False True ''s'' True
                 | None \<Rightarrow>
                     (case cn_properties src of
                        Some ps \<Rightarrow> st2 @ gen_properties_string ps False True ''s'' True
                      | None \<Rightarrow> st2));
          st4 = (if first_has_props then st3 @ '' AND '' else st3)
      in case (case ni_uniqueProperties node_instance of
                 Some up \<Rightarrow>
                   (case ni_properties node_instance of
                      None \<Rightarrow> Inl KeyError
                    | Some ps \<Rightarrow>
                        Inr (st4 @ gen_properties_string ps False True ''d''
                                     (\<not> first_has_props)))
               | None \<Rightarrow>
                   (case ni_properties node_instance of
                      Some ps \<Rightarrow>
                        Inr (st4 @ gen_properties_string ps False True ''d''
                                     (\<not> first_has_props))
                    | None \<Rightarrow> Inr st4)) of
           Inl e \<Rightarrow> Inl e
         | Inr st5 \<Rightarrow>
             (case rel_instance_clause rel_instance of
                Inl e \<Rightarrow> Inl e
              | Inr clause \<Rightarrow> Inr (st5 @ clause)))))"

text \<open>
  \<^verbatim>\<open>GraphBuilder._gen_iterative_relationship_statements(relationship)\<close>: the branch
  is chosen by the source node's type, and each loop runs over
  \<^verbatim>\<open>zip(node['instances'], relationship['instances'])\<close>.
\<close>

definition gen_iterative_relationship_statements :: "crel \<Rightarrow> error + string list" where
  "gen_iterative_relationship_statements relationship =
     (case cr_sourceNode relationship of
        None \<Rightarrow> Inl KeyError
      | Some src \<Rightarrow>
          (if cn_nodeType src = ''iterator'' then
             (case cn_instances src of
                None \<Rightarrow> Inl KeyError
              | Some node_instances \<Rightarrow>
                  (case cr_instances relationship of
                     None \<Rightarrow> Inl KeyError
                   | Some rel_instances \<Rightarrow>
                       statements_loop (source_instance_statement relationship)
                         (zip node_instances rel_instances) []))
           else
             (case cr_destinationNode relationship of
                None \<Rightarrow> Inl KeyError
              | Some dest \<Rightarrow>
                  (case cn_instances dest of
                     None \<Rightarrow> Inl KeyError
                   | Some node_instances \<Rightarrow>
                       (case cr_instances relationship of
                          None \<Rightarrow> Inl KeyError
                        | Some rel_instances \<Rightarrow>
                            statements_loop (destination_instance_statement relationship)
                              (zip node_instances rel_instances) [])))))"

section \<open>Execution against the sink\<close>

text \<open>
  \<^verbatim>\<open>session.write_transaction(self._run_statement, statement)\<close> is the sink: given a
  statement and the store it returns the new store and either the text of the result
  or the exception it raised. The store \<open>'db\<close> and the exception \<open>'e\<close> are the
  sink's own.
\<close>

type_synonym ('db, 'e) sink = "string \<Rightarrow> 'db \<Rightarrow> ('e + string) \<times> 'db"

text \<open>What an execution has done so far: the store, and the logger's records in order.\<close>

record 'db exec_state =
  es_db :: 'db
  es_log :: "(string \<times> string) list"

definition log_record :: "string \<Rightarrow> string \<Rightarrow> 'db exec_state \<Rightarrow> 'db exec_state" where
  "log_record level msg st = st\<lparr>es_log := es_log st @ [(level, msg)]\<rparr>"

text \<open>
  One \<^verbatim>\<open>for statement in ...\<close> loop of \<^verbatim>\<open>GraphBuilder._execute_statements\<close>. The
  call of the sink stands in no \<^verbatim>\<open>try\<close>: an exception leaves the loop, and the
  function, with the state reached.
\<close>

fun execute_loop ::
  "('db, 'e) sink \<Rightarrow> string list \<Rightarrow> 'db exec_state \<Rightarrow> 'db exec_state \<times> 'e option" where
  "execute_loop tx [] st = (st, None)"
| "execute_loop tx (statement # rest) st =
     (let st1 = log_record ''debug'' (''executing statement: '' @ statement) st
      in case tx statement (es_db st1) of
           (Inl e, db') \<Rightarrow> (st1\<lparr>es_db := db'\<rparr>, Some e)
         | (Inr result, db') \<Rightarrow>
             execute_loop tx rest
               (log_record ''debug'' (''execution result: '' @ result) (st1\<lparr>es_db := db'\<rparr>)))"

text \<open>The message \<^verbatim>\<open>_execute_statements\<close> logs at level info before it starts.\<close>

definition execute_message :: "string list \<Rightarrow> string list \<Rightarrow> string" where
  "execute_message node_statements relationship_statements =
     ''executing '' @ show_nat (length node_statements)
       @ '' node statements and '' @ show_nat (length relationship_statements)
       @ '' relationship statements against database''"

text \<open>\<^verbatim>\<open>GraphBuilder._execute_statements(node_statements, relationship_statements)\<close>.\<close>

definition execute_statements ::
  "('db, 'e) sink \<Rightarrow> string list \<Rightarrow> string list \<Rightarrow> 'db exec_state
     \<Rightarrow> 'db exec_state \<times> 'e option" where
  "execute_statements tx node_statements relationship_statements st =
     (let st0 = log_record ''info''
                  (execute_message node_statements relationship_statements) st
      in case execute_loop tx node_statements st0 of
           (st1, Some e) \<Rightarrow> (st1, Some e)
         | (st1, None) \<Rightarrow> execute_loop tx relationship_statements st1)"

section \<open>Loading the mapping\<close>

text \<open>
  What \<^verbatim>\<open>full_load(open(mapping_file).read())\<close> does: it raises \<^verbatim>\<open>IOError\<close>, raises
  \<^verbatim>\<open>YAMLError\<close>, or returns the parsed mapping.
\<close>

datatype parse_result = IOError_raised | YAMLError_raised | Parsed mapping

text \<open>
  \<^verbatim>\<open>_load_mapping(mapping_file)\<close> of \<^verbatim>\<open>elastic2neo.py\<close>: \<open>Inl 1\<close> is
  \<^verbatim>\<open>exit(1)\<close>. After the \<^verbatim>\<open>try\<close> the function holds the comment
  \<^verbatim>\<open># TODO: mapping file validation\<close> and returns what was parsed.
\<close>

definition load_mapping :: "parse_result \<Rightarrow> nat + mapping" where
  "load_mapping parsed =
     (case parsed of
        IOError_raised \<Rightarrow> Inl 1
      | YAMLError_raised \<Rightarrow> Inl 1
      | Parsed m \<Rightarrow> Inr m)"

section \<open>Auxiliary definitions for the statements below\<close>

text \<open>
  The property evaluation one round of \<^verbatim>\<open>_gen_iterative_relationship\<close> performs,
  and the instance the round appends when that evaluation is valid.
\<close>

definition rel_body :: "json \<Rightarrow> reldef \<Rightarrow> error + (props \<times> props \<times> bool)" where
  "rel_body doc relationship =
     (case rd_properties relationship of
        None \<Rightarrow> Inr ([], [], True)
      | Some ps \<Rightarrow> rel_props doc relationship ps ([], [], True))"

definition rel_instance_of :: "reldef \<Rightarrow> props \<Rightarrow> props \<Rightarrow> rinstance" where
  "rel_instance_of relationship properties unique_properties =
     (let inst = \<lparr>ri_type = rd_type relationship,
                   ri_directionality = rd_directionality relationship,
                   ri_unique = rd_unique relationship,
                   ri_properties = None, ri_uniqueProperties = None\<rparr>;
          i1 = (if length properties > 0 then inst\<lparr>ri_properties := Some properties\<rparr> else inst)
      in (if length unique_properties > 0
          then i1\<lparr>ri_uniqueProperties := Some unique_properties\<rparr> else i1))"

text \<open>
  The parts of a node statement: the \<^verbatim>\<open>MERGE\<close> pattern with the labels and the
  properties inside it, the properties that are no key of the unique properties, the
  labels that are no unique labels, and the clause that sets both after the pattern.
\<close>

definition merge_pattern :: "string list \<Rightarrow> props option \<Rightarrow> string" where
  "merge_pattern labels pattern_properties =
     ''MERGE (n'' @ gen_label_string labels
       @ (case pattern_properties of
            Some properties \<Rightarrow> gen_properties_string properties True False ''n'' True
          | None \<Rightarrow> [])
       @ '')''"

definition non_unique :: "props \<Rightarrow> props \<Rightarrow> props" where
  "non_unique properties unique_properties =
     filter (\<lambda>kv. fst kv \<notin> set (map fst unique_properties)) properties"

definition extra_labels :: "string list \<Rightarrow> string list option \<Rightarrow> string list" where
  "extra_labels labels unique_labels =
     (case unique_labels of
        Some ul \<Rightarrow> filter (\<lambda>l. l \<notin> set ul) labels
      | None \<Rightarrow> [])"

definition set_clause :: "props \<Rightarrow> string list \<Rightarrow> string" where
  "set_clause need_to_set not_in_unique =
     gen_properties_string need_to_set False False ''n'' True
       @ (if not_in_unique = [] then []
          else if need_to_set = [] then ''SET n'' @ gen_label_string not_in_unique
          else '', n'' @ gen_label_string not_in_unique)"

section \<open>A sample mapping and documents\<close>

definition no_hooks :: hooks where
  "no_hooks = \<lparr>pre_modules = [], post_node_modules = [], post_relationship_modules = []\<rparr>"

definition ex_owner_def :: nodedef where
  "ex_owner_def =
     \<lparr>nd_id = ''owner'', nd_nodeType = ''standard'', nd_labels = [''Person''],
      nd_required = True,
      nd_properties = Some [(''name'', \<lparr>pd_key = ''owner'', pd_type = ''string''\<rparr>)],
      nd_uniqueProperties = Some [''name''], nd_requiredProperties = Some [''name''],
      nd_uniqueLabels = None, nd_iterator = None\<rparr>"

definition ex_tag_def :: nodedef where
  "ex_tag_def =
     \<lparr>nd_id = ''tag'', nd_nodeType = ''iterator'', nd_labels = [''Tag''],
      nd_required = True,
      nd_properties = Some [(''name'', \<lparr>pd_key = ''ITER!'', pd_type = ''string''\<rparr>)],
      nd_uniqueProperties = Some [''name''], nd_requiredProperties = None,
      nd_uniqueLabels = None, nd_iterator = Some ''tags''\<rparr>"

definition ex_rel_def :: reldef where
  "ex_rel_def =
     \<lparr>rd_type = ''HAS_TAG'', rd_relationshipType = ''iterator'', rd_directionality = ''>'',
      rd_sourceNode = ''owner'', rd_destinationNode = ''tag'', rd_required = True,
      rd_unique = Some True,
      rd_properties = Some [(''tag'', \<lparr>pd_key = ''ITER!'', pd_type = ''string''\<rparr>)],
      rd_uniqueProperties = None, rd_requiredProperties = None\<rparr>"

definition ex_mapping :: mapping where
  "ex_mapping =
     \<lparr>m_index = ''docs'', m_docType = ''doc'', m_nodes = [ex_owner_def, ex_tag_def],
      m_relationships = [ex_rel_def]\<rparr>"

definition ex_doc :: json where
  "ex_doc = JDict [(''owner'', JStr ''ann''), (''tags'', JList [JStr ''a'', JStr ''b''])]"

definition ex_hit :: json where
  "ex_hit = JDict [(''_source'', ex_doc)]"

text \<open>A document without the path \<^verbatim>\<open>owner\<close>, which the required node \<^verbatim>\<open>owner\<close> requires.\<close>

definition ex_bad_doc :: json where
  "ex_bad_doc = JDict [(''tags'', JList [JStr ''a''])]"

definition ex_bad_hit :: json where
  "ex_bad_hit = JDict [(''_source'', ex_bad_doc)]"

text \<open>What the sample document compiles to.\<close>

definition ex_owner_node :: cnode where
  "ex_owner_node =
     \<lparr>cn_nodeType = ''standard'', cn_labels = [''Person''], cn_id = ''owner'',
      cn_properties = Some [(''name'', \<lparr>pv_value = JStr ''ann'', pv_type = ''string''\<rparr>)],
      cn_uniqueProperties = Some [(''name'', \<lparr>pv_value = JStr ''ann'', pv_type = ''string''\<rparr>)],
      cn_uniqueLabels = None, cn_instances = None\<rparr>"

definition ex_tag_instance :: "string \<Rightarrow> ninstance" where
  "ex_tag_instance t =
     \<lparr>ni_labels = [''Tag''], ni_uniqueLabels = None,
      ni_properties = Some [(''name'', \<lparr>pv_value = JStr t, pv_type = ''string''\<rparr>)],
      ni_uniqueProperties = Some [(''name'', \<lparr>pv_value = JStr t, pv_type = ''string''\<rparr>)]\<rparr>"

definition ex_tag_node :: cnode where
  "ex_tag_node =
     \<lparr>cn_nodeType = ''iterator'', cn_labels = [''Tag''], cn_id = ''tag'',
      cn_properties = None, cn_uniqueProperties = None, cn_uniqueLabels = None,
      cn_instances = Some [ex_tag_instance ''a'', ex_tag_instance ''b'']\<rparr>"

definition ex_nodes :: "cnode list" where
  "ex_nodes = [ex_owner_node, ex_tag_node]"

definition ex_new_rel :: crel where
  "ex_new_rel =
     \<lparr>cr_type = ''HAS_TAG'', cr_relationshipType = ''iterator'', cr_directionality = None,
      cr_unique = None, cr_sourceNode = None, cr_destinationNode = None,
      cr_properties = None, cr_uniqueProperties = None, cr_instances = None\<rparr>"

definition ex_rel_instance :: rinstance where
  "ex_rel_instance =
     \<lparr>ri_type = ''HAS_TAG'', ri_directionality = ''>'', ri_unique = Some True,
      ri_properties = None, ri_uniqueProperties = None\<rparr>"

definition ex_rel :: crel where
  "ex_rel =
     ex_new_rel\<lparr>cr_sourceNode := Some ex_owner_node, cr_destinationNode := Some ex_tag_node,
                 cr_instances := Some [ex_rel_instance, ex_rel_instance]\<rparr>"

text \<open>The names in an optional dict of compiled properties.\<close>

fun prop_names :: "props option \<Rightarrow> string list" where
  "prop_names None = []"
| "prop_names (Some properties) = map fst properties"

text \<open>
  A standard node with a required property \<^verbatim>\<open>name\<close> declared before a property
  whose path is \<^verbatim>\<open>address.city\<close>, and a document \<^verbatim>\<open>{"address": 7}\<close>: the path
  \<^verbatim>\<open>name\<close> is missing, and \<^verbatim>\<open>address\<close> is a number.
\<close>

definition ex_person_props :: "(string \<times> propdef) list" where
  "ex_person_props =
     [(''name'', \<lparr>pd_key = ''name'', pd_type = ''string''\<rparr>),
      (''city'', \<lparr>pd_key = ''address.city'', pd_type = ''string''\<rparr>)]"

definition ex_person_def :: nodedef where
  "ex_person_def =
     \<lparr>nd_id = ''person'', nd_nodeType = ''standard'', nd_labels = [''Person''],
      nd_required = True, nd_properties = Some ex_person_props,
      nd_uniqueProperties = None, nd_requiredProperties = Some [''name''],
      nd_uniqueLabels = None, nd_iterator = None\<rparr>"

definition ex_person_new :: cnode where
  "ex_person_new =
     \<lparr>cn_nodeType = ''standard'', cn_labels = [''Person''], cn_id = ''person'',
      cn_properties = None, cn_uniqueProperties = None, cn_uniqueLabels = None,
      cn_instances = None\<rparr>"

definition ex_address_doc :: json where
  "ex_address_doc = JDict [(''address'', JNum 7)]"

text \<open>
  A standard relationship and a standard node that declare the same property
  \<^verbatim>\<open>since\<close>, unique and not required, and two compiled nodes for the endpoints. The
  sample document has no path \<^verbatim>\<open>since\<close>.
\<close>

definition ex_since_props :: "(string \<times> propdef) list" where
  "ex_since_props = [(''since'', \<lparr>pd_key = ''since'', pd_type = ''number''\<rparr>)]"

definition ex_knows_def :: reldef where
  "ex_knows_def =
     \<lparr>rd_type = ''KNOWS'', rd_relationshipType = ''standard'', rd_directionality = ''>'',
      rd_sourceNode = ''a'', rd_destinationNode = ''b'', rd_required = False,
      rd_unique = None, rd_properties = Some ex_since_props,
      rd_uniqueProperties = Some [''since''], rd_requiredProperties = None\<rparr>"

definition ex_knows_new :: crel where
  "ex_knows_new =
     \<lparr>cr_type = ''KNOWS'', cr_relationshipType = ''standard'', cr_directionality = None,
      cr_unique = None, cr_sourceNode = None, cr_destinationNode = None,
      cr_properties = None, cr_uniqueProperties = None, cr_instances = None\<rparr>"

definition ex_plain_node :: "string \<Rightarrow> cnode" where
  "ex_plain_node ident =
     \<lparr>cn_nodeType = ''standard'', cn_labels = [''Person''], cn_id = ident,
      cn_properties = None, cn_uniqueProperties = None, cn_uniqueLabels = None,
      cn_instances = None\<rparr>"

definition ex_since_node_def :: nodedef where
  "ex_since_node_def =
     \<lparr>nd_id = ''a'', nd_nodeType = ''standard'', nd_labels = [''Person''],
      nd_required = False, nd_properties = Some ex_since_props,
      nd_uniqueProperties = Some [''since''], nd_requiredProperties = None,
      nd_uniqueLabels = None, nd_iterator = None\<rparr>"

text \<open>A relationship of the sample mapping whose destination is no node of the mapping.\<close>

definition ex_dangling_def :: reldef where
  "ex_dangling_def =
     \<lparr>rd_type = ''OWNS'', rd_relationshipType = ''standard'', rd_directionality = ''>'',
      rd_sourceNode = ''owner'', rd_destinationNode = ''nobody'', rd_required = True,
      rd_unique = None, rd_properties = None, rd_uniqueProperties = None,
      rd_requiredProperties = None\<rparr>"

definition ex_dangling_mapping :: mapping where
  "ex_dangling_mapping = ex_mapping\<lparr>m_relationships := [ex_dangling_def]\<rparr>"

definition ex_dangling_new :: crel where
  "ex_dangling_new =
     \<lparr>cr_type = ''OWNS'', cr_relationshipType = ''standard'', cr_directionality = None,
      cr_unique = None, cr_sourceNode = None, cr_destinationNode = None,
      cr_properties = None, cr_uniqueProperties = None, cr_instances = None\<rparr>"

text \<open>
  A sink whose store is the list of the statements it has executed; it fails on the
  statement \<^verbatim>\<open>BAD\<close> and leaves the store as it was.
\<close>

definition ex_sink :: "(string list, string) sink" where
  "ex_sink statement db =
     (if statement = ''BAD'' then (Inl ''boom'', db) else (Inr ''ok'', db @ [statement]))"

definition ex_start :: "string list exec_state" where
  "ex_start = \<lparr>es_db = [], es_log = []\<rparr>"

text \<open>
  Compiled nodes for the statement generator: a standard node with a unique label and
  no unique property, and its counterpart with the unique property \<^verbatim>\<open>id\<close>; an
  iterator instance with the unique property \<^verbatim>\<open>id\<close> and the other property
  \<^verbatim>\<open>name\<close>.
\<close>

definition ex_name_value :: propval where
  "ex_name_value = \<lparr>pv_value = JStr ''ann'', pv_type = ''string''\<rparr>"

definition ex_id_value :: propval where
  "ex_id_value = \<lparr>pv_value = JNum 7, pv_type = ''number''\<rparr>"

definition ex_label_node :: cnode where
  "ex_label_node =
     \<lparr>cn_nodeType = ''standard'', cn_labels = [''Person'', ''Client''], cn_id = ''p'',
      cn_properties = Some [(''name'', ex_name_value)], cn_uniqueProperties = None,
      cn_uniqueLabels = Some [''Person''], cn_instances = None\<rparr>"

definition ex_keyed_node :: cnode where
  "ex_keyed_node =
     \<lparr>cn_nodeType = ''standard'', cn_labels = [''Person'', ''Client''], cn_id = ''p'',
      cn_properties = Some [(''id'', ex_id_value), (''name'', ex_name_value)],
      cn_uniqueProperties = Some [(''id'', ex_id_value)],
      cn_uniqueLabels = Some [''Person''], cn_instances = None\<rparr>"

definition ex_keyed_instance :: ninstance where
  "ex_keyed_instance =
     \<lparr>ni_labels = [''Tag''], ni_uniqueLabels = None,
      ni_properties = Some [(''id'', ex_id_value), (''name'', ex_name_value)],
      ni_uniqueProperties = Some [(''id'', ex_id_value)]\<rparr>"

definition ex_label_instance :: ninstance where
  "ex_label_instance =
     \<lparr>ni_labels = [''Tag'', ''Hot''], ni_uniqueLabels = Some [''Tag''],
      ni_properties = Some [(''name'', ex_name_value)], ni_uniqueProperties = None\<rparr>"

definition ex_unique_instance :: ninstance where
  "ex_unique_instance =
     \<lparr>ni_labels = [''Tag''], ni_uniqueLabels = None,
      ni_properties = Some [(''id'', ex_id_value)],
      ni_uniqueProperties = Some [(''id'', ex_id_value)]\<rparr>"

section \<open>Path resolver: missing segments\<close>

lemma map_of_Some_in_keys: "map_of kvs k = Some v \<Longrightarrow> k \<in> set (map fst kvs)"
  by (induction kvs) (auto split: if_splits)

lemma walk_dict_cases:
  "walk (p # ps) item = Some r \<Longrightarrow>
   \<exists>kvs v. item = JDict kvs \<and> map_of kvs p = Some v \<and> walk ps v = Some r"
  by (cases item) (auto split: option.splits)

lemma key_check_absent:
  "walk ps item = Some (JDict kvs) \<Longrightarrow> k \<notin> set (map fst kvs) \<Longrightarrow>
   recursive_key_check (ps @ k # rest) item = Inr False"
proof (induction ps arbitrary: item)
  case Nil
  then show ?case by (cases rest) auto
next
  case (Cons p ps)
  from walk_dict_cases [OF Cons.prems(1)] obtain kvs0 v where
    i: "item = JDict kvs0" and m: "map_of kvs0 p = Some v" and w: "walk ps v = Some (JDict kvs)"
    by blast
  have "recursive_key_check (ps @ k # rest) v = Inr False"
    using Cons.IH [OF w Cons.prems(2)] .
  moreover obtain q qs where "ps @ k # rest = q # qs" by (cases "ps @ k # rest") auto
  ultimately show ?case using i m map_of_Some_in_keys [OF m] by simp
qed

lemma get_value_absent:
  "walk ps item = Some (JDict kvs) \<Longrightarrow> k \<notin> set (map fst kvs) \<Longrightarrow>
   recursive_get_value (ps @ k # rest) item = Inr JNull"
proof (induction ps arbitrary: item)
  case Nil
  then show ?case by (cases rest) auto
next
  case (Cons p ps)
  from walk_dict_cases [OF Cons.prems(1)] obtain kvs0 v where
    i: "item = JDict kvs0" and m: "map_of kvs0 p = Some v" and w: "walk ps v = Some (JDict kvs)"
    by blast
  have "recursive_get_value (ps @ k # rest) v = Inr JNull"
    using Cons.IH [OF w Cons.prems(2)] .
  moreover obtain q qs where "ps @ k # rest = q # qs" by (cases "ps @ k # rest") auto
  ultimately show ?case using i m map_of_Some_in_keys [OF m] by simp
qed

text \<open>
  Claim C6, as amended. Let the dotted path split into the segments \<open>ps\<close>, then
  \<open>k\<close>, then \<open>rest\<close>. If the segments \<open>ps\<close> lead through nested dicts to a dict
  that has no key \<open>k\<close>, the path-existence check returns \<^verbatim>\<open>False\<close> and the value
  retrieval returns \<^verbatim>\<open>None\<close>; neither raises.
\<close>

theorem path_absent_segment:
  assumes "split_dot path = ps @ k # rest"
    and "walk ps item = Some (JDict kvs)"
    and "k \<notin> set (map fst kvs)"
  shows "recursive_key_check (split_dot path) item = Inr False \<and>
         recursive_get_value (split_dot path) item = Inr JNull"
  using assms key_check_absent get_value_absent by simp

text \<open>
  Witness for C6: the path \<^verbatim>\<open>a.b.c\<close> in the document \<^verbatim>\<open>{"a": {"x": 1}}\<close>, where
  the segment \<^verbatim>\<open>b\<close> is missing.
\<close>

theorem path_absent_segment_witness:
  "split_dot ''a.b.c'' = [''a''] @ ''b'' # [''c''] \<and>
   walk [''a''] (JDict [(''a'', JDict [(''x'', JNum 1)])]) = Some (JDict [(''x'', JNum 1)]) \<and>
   ''b'' \<notin> set (map fst [(''x'', JNum 1)]) \<and>
   recursive_key_check (split_dot ''a.b.c'') (JDict [(''a'', JDict [(''x'', JNum 1)])]) = Inr False \<and>
   recursive_get_value (split_dot ''a.b.c'') (JDict [(''a'', JDict [(''x'', JNum 1)])]) = Inr JNull"
  using path_absent_segment [of "''a.b.c''" "[''a'']" "''b''" "[''c'']"
      "JDict [(''a'', JDict [(''x'', JNum 1)])]" "[(''x'', JNum 1)]"]
  by (simp add: split_dot_def)

text \<open>
  Counterexample to C6 as stated: in the document \<^verbatim>\<open>{"a": 5}\<close> the value of the
  intermediate segment \<^verbatim>\<open>a\<close> of the path \<^verbatim>\<open>a.b\<close> is a number, not a record; both
  functions raise \<^verbatim>\<open>TypeError\<close> instead of returning \<^verbatim>\<open>False\<close> and \<^verbatim>\<open>None\<close>.
\<close>

theorem path_scalar_segment_raises:
  "recursive_key_check (split_dot ''a.b'') (JDict [(''a'', JNum 5)]) = Inl TypeError \<and>
   recursive_get_value (split_dot ''a.b'') (JDict [(''a'', JNum 5)]) = Inl TypeError"
  by (simp add: split_dot_def)

section \<open>Iterator relationships: instance count, pairing and equality\<close>

lemmas ex_defs = no_hooks_def ex_owner_def_def ex_tag_def_def ex_rel_def_def ex_mapping_def
  ex_doc_def ex_hit_def ex_bad_doc_def ex_bad_hit_def ex_owner_node_def ex_tag_instance_def
  ex_tag_node_def ex_nodes_def ex_new_rel_def ex_rel_instance_def ex_rel_def
  ex_person_props_def ex_person_def_def ex_person_new_def ex_address_doc_def
  ex_since_props_def ex_knows_def_def ex_knows_new_def ex_plain_node_def
  ex_since_node_def_def ex_dangling_def_def ex_dangling_mapping_def ex_dangling_new_def
  ex_sink_def ex_start_def ex_name_value_def ex_id_value_def ex_label_node_def
  ex_keyed_node_def ex_keyed_instance_def ex_label_instance_def ex_unique_instance_def


lemma rel_instances_loop_step:
  "rel_instances_loop (Suc n) doc relationship instances =
     (case rel_body doc relationship of
        Inl e \<Rightarrow> Inl e
      | Inr (properties, unique_properties, valid) \<Rightarrow>
          (if valid
           then rel_instances_loop n doc relationship
                  (instances @ [rel_instance_of relationship properties unique_properties])
           else rel_instances_loop n doc relationship instances))"
  by (simp add: rel_body_def rel_instance_of_def Let_def split: sum.splits prod.splits)

lemma rel_instances_loop_valid:
  "rel_body doc relationship = Inr (p, u, True) \<Longrightarrow>
   rel_instances_loop n doc relationship acc =
     Inr (acc @ replicate n (rel_instance_of relationship p u))"
proof (induction n arbitrary: acc)
  case 0
  show ?case by simp
next
  case (Suc n)
  show ?case
    using Suc.prems Suc.IH [OF Suc.prems]
    by (simp only: rel_instances_loop_step) (simp add: replicate_app_Cons_same)
qed

lemma rel_instances_loop_invalid:
  "rel_body doc relationship = Inr (p, u, False) \<Longrightarrow>
   rel_instances_loop n doc relationship acc = Inr acc"
proof (induction n arbitrary: acc)
  case 0
  show ?case by simp
next
  case (Suc n)
  show ?case
    using Suc.prems Suc.IH [OF Suc.prems]
    by (simp only: rel_instances_loop_step) simp
qed

lemma rel_instances_loop_error:
  "rel_body doc relationship = Inl e \<Longrightarrow>
   rel_instances_loop n doc relationship acc = (if n = 0 then Inr acc else Inl e)"
  by (cases n) (simp_all only: rel_instances_loop_step, simp_all)

lemma rel_instances_loop_nonempty:
  assumes "rel_instances_loop n doc relationship [] = Inr ris" and "ris \<noteq> []"
  shows "\<exists>p u. rel_body doc relationship = Inr (p, u, True) \<and>
               ris = replicate n (rel_instance_of relationship p u)"
proof (cases "rel_body doc relationship")
  case (Inl e)
  with assms rel_instances_loop_error [OF Inl, of n "[]"] show ?thesis
    by (auto split: if_splits)
next
  case (Inr t)
  obtain p u v where t: "t = (p, u, v)" by (cases t) auto
  show ?thesis
  proof (cases v)
    case True
    with Inr t assms rel_instances_loop_valid [of doc relationship p u n "[]"] show ?thesis
      by auto
  next
    case False
    with Inr t assms rel_instances_loop_invalid [of doc relationship p u n "[]"] show ?thesis
      by auto
  qed
qed

lemma find_iter_endpoint_none:
  "rid \<notin> set (map cn_id nodes) \<Longrightarrow> find_iter_endpoint rid nodes st = st"
proof (induction nodes arbitrary: st)
  case Nil
  show ?case by simp
next
  case (Cons n ns)
  obtain a b c d where "st = (a, b, c, d)" by (cases st) auto
  with Cons show ?case by auto
qed

lemma find_iter_endpoint_distinct:
  "distinct (map cn_id nodes) \<Longrightarrow>
   find_iter_endpoint rid nodes (slot, found, c, it) =
     (case find (\<lambda>n. cn_id n = rid) nodes of
        None \<Rightarrow> (slot, found, c, it)
      | Some n \<Rightarrow> (Some n, True,
                   (if cn_nodeType n = ''iterator'' then c + 1 else c),
                   (if cn_nodeType n = ''iterator'' then Some n else it)))"
proof (induction nodes arbitrary: slot found c it)
  case Nil
  show ?case by simp
next
  case (Cons n ns)
  show ?case
  proof (cases "cn_id n = rid")
    case True
    with Cons.prems have "rid \<notin> set (map cn_id ns)" by auto
    from find_iter_endpoint_none [OF this] True show ?thesis by simp
  next
    case False
    with Cons show ?thesis by simp
  qed
qed

lemma gen_iterative_relationship_valid:
  assumes "gen_iterative_relationship doc rel nodes nr = Inr (r, True)"
    and "distinct (map cn_id nodes)"
  shows "\<exists>src dst nis p u.
           find (\<lambda>n. cn_id n = rd_sourceNode rel) nodes = Some src \<and>
           find (\<lambda>n. cn_id n = rd_destinationNode rel) nodes = Some dst \<and>
           (cn_nodeType src = ''iterator'') \<noteq> (cn_nodeType dst = ''iterator'') \<and>
           cn_instances (if cn_nodeType src = ''iterator'' then src else dst) = Some nis \<and>
           rel_body doc rel = Inr (p, u, True) \<and>
           nis \<noteq> [] \<and>
           r = nr\<lparr>cr_sourceNode := Some src, cr_destinationNode := Some dst,
                  cr_instances := Some (replicate (length nis) (rel_instance_of rel p u))\<rparr>"
proof -
  let ?fs = "find (\<lambda>n. cn_id n = rd_sourceNode rel) nodes"
  let ?fd = "find (\<lambda>n. cn_id n = rd_destinationNode rel) nodes"
  note fe = find_iter_endpoint_distinct [OF assms(2)]
  from assms(1) obtain src where s: "?fs = Some src"
    by (cases ?fs) (auto simp: gen_iterative_relationship_def fe Let_def
        split: option.splits sum.splits if_splits)
  from assms(1) s obtain dst where d: "?fd = Some dst"
    by (cases ?fd) (auto simp: gen_iterative_relationship_def fe Let_def
        split: option.splits sum.splits if_splits)
  from assms(1) s d have x: "(cn_nodeType src = ''iterator'') \<noteq> (cn_nodeType dst = ''iterator'')"
    by (auto simp: gen_iterative_relationship_def fe Let_def
        split: option.splits sum.splits if_splits)
  let ?itn = "if cn_nodeType src = ''iterator'' then src else dst"
  from assms(1) s d x obtain nis where n: "cn_instances ?itn = Some nis"
    by (cases "cn_instances ?itn") (auto simp: gen_iterative_relationship_def fe Let_def
        split: option.splits sum.splits if_splits)
  from assms(1) s d x n obtain ris where
    l: "rel_instances_loop (length nis) doc rel [] = Inr ris" and ne: "ris \<noteq> []"
    and r: "r = nr\<lparr>cr_sourceNode := Some src, cr_destinationNode := Some dst,
                    cr_instances := Some ris\<rparr>"
    by (auto simp: gen_iterative_relationship_def fe Let_def
        split: option.splits sum.splits if_splits)
  from rel_instances_loop_nonempty [OF l ne] obtain p u where
    b: "rel_body doc rel = Inr (p, u, True)"
    and ris: "ris = replicate (length nis) (rel_instance_of rel p u)" by blast
  from ne ris have "nis \<noteq> []" by auto
  with s d x n b r ris show ?thesis by blast
qed

lemma statements_loop_Inr:
  "statements_loop body xs acc = Inr res \<longleftrightarrow> (\<exists>ss. res = acc @ ss \<and> map body xs = map Inr ss)"
proof (induction xs arbitrary: acc)
  case Nil
  show ?case by auto
next
  case (Cons x xs)
  have d: "map body (x # xs) = body x # map body xs" by simp
  show ?case
  proof (cases "body x")
    case (Inl e)
    have "\<not> (\<exists>ss. res = acc @ ss \<and> body x # map body xs = map Inr ss)"
    proof
      assume "\<exists>ss. res = acc @ ss \<and> body x # map body xs = map Inr ss"
      then obtain ss where "body x # map body xs = map Inr ss" by (elim exE conjE)
      then obtain t where "body x = Inr t" by (cases ss) auto
      with Inl show False by simp
    qed
    moreover have "statements_loop body (x # xs) acc = Inl e" using Inl by simp
    ultimately show ?thesis by (simp only: d) simp
  next
    case (Inr s)
    have a: "statements_loop body (x # xs) acc = statements_loop body xs (acc @ [s])"
      using Inr by simp
    have b: "statements_loop body xs (acc @ [s]) = Inr res \<longleftrightarrow>
             (\<exists>ss'. res = (acc @ [s]) @ ss' \<and> map body xs = map Inr ss')"
      by (rule Cons.IH)
    have c: "(\<exists>ss'. res = (acc @ [s]) @ ss' \<and> map body xs = map Inr ss') \<longleftrightarrow>
          (\<exists>ss. res = acc @ ss \<and> body x # map body xs = map Inr ss)"
    proof
      assume "\<exists>ss'. res = (acc @ [s]) @ ss' \<and> map body xs = map Inr ss'"
      then obtain ss' where "res = acc @ (s # ss')" "map body xs = map Inr ss'" by auto
      with Inr have "res = acc @ (s # ss') \<and> body x # map body xs = map Inr (s # ss')" by simp
      then show "\<exists>ss. res = acc @ ss \<and> body x # map body xs = map Inr ss" by (rule exI)
    next
      assume "\<exists>ss. res = acc @ ss \<and> body x # map body xs = map Inr ss"
      then obtain ss where ss: "res = acc @ ss" "body x # map body xs = map Inr ss" by (elim exE conjE)
      then obtain t ts where "ss = t # ts" by (cases ss) auto
      with ss Inr have "res = (acc @ [s]) @ ts \<and> map body xs = map Inr ts" by auto
      then show "\<exists>ss'. res = (acc @ [s]) @ ss' \<and> map body xs = map Inr ss'" by (rule exI)
    qed
    show ?thesis by (simp only: d a b c)
  qed
qed

lemma statements_loop_nth:
  "statements_loop body xs [] = Inr stmts \<longleftrightarrow>
   (length stmts = length xs \<and> (\<forall>i<length xs. body (xs ! i) = Inr (stmts ! i)))"
proof -
  have "statements_loop body xs [] = Inr stmts \<longleftrightarrow> map body xs = map Inr stmts"
    by (simp add: statements_loop_Inr)
  also have "\<dots> \<longleftrightarrow> (length stmts = length xs \<and> (\<forall>i<length xs. body (xs ! i) = Inr (stmts ! i)))"
    by (auto simp: list_eq_iff_nth_eq)
  finally show ?thesis .
qed

lemma ex_gen_rel:
  "gen_iterative_relationship ex_doc ex_rel_def ex_nodes ex_new_rel = Inr (ex_rel, True)"
  by (simp add: ex_defs gen_iterative_relationship_def split_dot_def Let_def)

lemma ex_distinct: "distinct (map cn_id ex_nodes)"
  by (simp add: ex_defs)

text \<open>
  Claim C4. Let an iterator relationship compile as valid against nodes with distinct ids
  (node ids are unique within a mapping). Then exactly one of its two endpoints is an
  iterator node, the relationship has as many instances as that node, and statement
  generation returns a list exactly when the statement of node instance \<open>i\<close> paired
  with relationship instance \<open>i\<close> is its \<open>i\<close>-th element, for every \<open>i\<close>.
\<close>

theorem iterative_relationship_positional:
  assumes "gen_iterative_relationship doc rel nodes nr = Inr (r, True)"
    and "distinct (map cn_id nodes)"
  shows "\<exists>src dst nis ris.
           cr_sourceNode r = Some src \<and> cr_destinationNode r = Some dst \<and>
           (cn_nodeType src = ''iterator'') \<noteq> (cn_nodeType dst = ''iterator'') \<and>
           cn_instances (if cn_nodeType src = ''iterator'' then src else dst) = Some nis \<and>
           cr_instances r = Some ris \<and>
           length ris = length nis \<and>
           (\<forall>stmts. gen_iterative_relationship_statements r = Inr stmts \<longleftrightarrow>
              (length stmts = length nis \<and>
               (\<forall>i<length nis.
                  (if cn_nodeType src = ''iterator''
                   then source_instance_statement r (nis ! i, ris ! i)
                   else destination_instance_statement r (nis ! i, ris ! i)) = Inr (stmts ! i))))"
proof -
  from gen_iterative_relationship_valid [OF assms] obtain src dst nis p u where
    x: "(cn_nodeType src = ''iterator'') \<noteq> (cn_nodeType dst = ''iterator'')"
    and n: "cn_instances (if cn_nodeType src = ''iterator'' then src else dst) = Some nis"
    and r: "r = nr\<lparr>cr_sourceNode := Some src, cr_destinationNode := Some dst,
                    cr_instances := Some (replicate (length nis) (rel_instance_of rel p u))\<rparr>"
    by blast
  let ?ris = "replicate (length nis) (rel_instance_of rel p u)"
  have s: "cr_sourceNode r = Some src" and d: "cr_destinationNode r = Some dst"
    and i: "cr_instances r = Some ?ris"
    using r by simp_all
  have l: "length ?ris = length nis" by simp
  have z: "\<And>i. i < length nis \<Longrightarrow> zip nis ?ris ! i = (nis ! i, ?ris ! i)"
    by simp
  have g: "\<And>stmts. gen_iterative_relationship_statements r = Inr stmts \<longleftrightarrow>
              (length stmts = length nis \<and>
               (\<forall>i<length nis.
                  (if cn_nodeType src = ''iterator''
                   then source_instance_statement r (nis ! i, ?ris ! i)
                   else destination_instance_statement r (nis ! i, ?ris ! i)) = Inr (stmts ! i)))"
  proof (cases "cn_nodeType src = ''iterator''")
    case True
    with n have "cn_instances src = Some nis" by simp
    with True s i show "\<And>stmts. ?thesis stmts"
      by (simp add: gen_iterative_relationship_statements_def statements_loop_nth)
  next
    case False
    with n have "cn_instances dst = Some nis" by simp
    with False s d i show "\<And>stmts. ?thesis stmts"
      by (simp add: gen_iterative_relationship_statements_def statements_loop_nth)
  qed
  show ?thesis
  proof (intro exI conjI)
    show "cr_sourceNode r = Some src" by (rule s)
    show "cr_destinationNode r = Some dst" by (rule d)
    show "(cn_nodeType src = ''iterator'') \<noteq> (cn_nodeType dst = ''iterator'')" by (rule x)
    show "cn_instances (if cn_nodeType src = ''iterator'' then src else dst) = Some nis"
      by (rule n)
    show "cr_instances r = Some ?ris" by (rule i)
    show "length ?ris = length nis" by (rule l)
    show "\<forall>stmts. gen_iterative_relationship_statements r = Inr stmts \<longleftrightarrow>
              (length stmts = length nis \<and>
               (\<forall>i<length nis.
                  (if cn_nodeType src = ''iterator''
                   then source_instance_statement r (nis ! i, ?ris ! i)
                   else destination_instance_statement r (nis ! i, ?ris ! i)) = Inr (stmts ! i)))"
      using g by (rule allI)
  qed
qed

text \<open>
  Witness for C4: the sample relationship \<^verbatim>\<open>HAS_TAG\<close> from the standard node
  \<^verbatim>\<open>owner\<close> to the iterator node \<^verbatim>\<open>tag\<close>, which has two instances; the two
  statements it generates are spelled out.
\<close>

theorem iterative_relationship_positional_witness:
  \<open>gen_iterative_relationship ex_doc ex_rel_def ex_nodes ex_new_rel = Inr (ex_rel, True) \<and>
   distinct (map cn_id ex_nodes) \<and>
   (\<exists>src dst nis ris.
           cr_sourceNode ex_rel = Some src \<and> cr_destinationNode ex_rel = Some dst \<and>
           (cn_nodeType src = ''iterator'') \<noteq> (cn_nodeType dst = ''iterator'') \<and>
           cn_instances (if cn_nodeType src = ''iterator'' then src else dst) = Some nis \<and>
           cr_instances ex_rel = Some ris \<and>
           length ris = length nis \<and>
           (\<forall>stmts. gen_iterative_relationship_statements ex_rel = Inr stmts \<longleftrightarrow>
              (length stmts = length nis \<and>
               (\<forall>i<length nis.
                  (if cn_nodeType src = ''iterator''
                   then source_instance_statement ex_rel (nis ! i, ris ! i)
                   else destination_instance_statement ex_rel (nis ! i, ris ! i)) = Inr (stmts ! i))))) \<and>
   gen_iterative_relationship_statements ex_rel =
     Inr [''MATCH (s:Person), (d:Tag)  WHERE s.name = "ann" AND d.name = "a" MERGE (s)-[r:HAS_TAG]->(d)'',
          ''MATCH (s:Person), (d:Tag)  WHERE s.name = "ann" AND d.name = "b" MERGE (s)-[r:HAS_TAG]->(d)'']\<close>
proof -
  have s: \<open>gen_iterative_relationship_statements ex_rel =
     Inr [''MATCH (s:Person), (d:Tag)  WHERE s.name = "ann" AND d.name = "a" MERGE (s)-[r:HAS_TAG]->(d)'',
          ''MATCH (s:Person), (d:Tag)  WHERE s.name = "ann" AND d.name = "b" MERGE (s)-[r:HAS_TAG]->(d)'']\<close>
    by (simp add: ex_defs gen_iterative_relationship_statements_def
        destination_instance_statement_def rel_instance_clause_def gen_properties_string_def
        get_property_value_def Let_def)
  show ?thesis
    by (rule conjI [OF ex_gen_rel conjI [OF ex_distinct
          conjI [OF iterative_relationship_positional [OF ex_gen_rel ex_distinct] s]]])
qed

text \<open>
  Claim C10. All instances of an iterator relationship that compiles as valid are equal
  to each other: the same type, directionality, unique flag, properties and unique
  properties, since one round of the loop reads the document and the mapping only.
\<close>

theorem iterative_relationship_instances_equal:
  assumes "gen_iterative_relationship doc rel nodes nr = Inr (r, True)"
  shows "\<exists>ris. cr_instances r = Some ris \<and> ris \<noteq> [] \<and>
               (\<forall>i<length ris. \<forall>j<length ris. ris ! i = ris ! j)"
proof -
  let ?body = "rel_body doc rel"
  from assms obtain ris n where
    l: "rel_instances_loop n doc rel [] = Inr ris" and ne: "ris \<noteq> []"
    and i: "cr_instances r = Some ris"
    by (auto simp: gen_iterative_relationship_def Let_def
        split: option.splits sum.splits if_splits prod.splits)
  from rel_instances_loop_nonempty [OF l ne] obtain p u where
    "ris = replicate n (rel_instance_of rel p u)" by blast
  with i ne show ?thesis by simp
qed

text \<open>Witness for C10: the two instances of the sample relationship.\<close>

theorem iterative_relationship_instances_equal_witness:
  "gen_iterative_relationship ex_doc ex_rel_def ex_nodes ex_new_rel = Inr (ex_rel, True) \<and>
   (\<exists>ris. cr_instances ex_rel = Some ris \<and> ris \<noteq> [] \<and>
          (\<forall>i<length ris. \<forall>j<length ris. ris ! i = ris ! j)) \<and>
   cr_instances ex_rel = Some [ex_rel_instance, ex_rel_instance]"
proof -
  have c: "cr_instances ex_rel = Some [ex_rel_instance, ex_rel_instance]"
    by (simp add: ex_rel_def)
  show ?thesis
    by (rule conjI [OF ex_gen_rel
          conjI [OF iterative_relationship_instances_equal [OF ex_gen_rel] c]])
qed

section \<open>Document pipeline: invalid documents\<close>

lemma process_loop_append:
  "process_loop h m (xs @ ys) acc =
     (case process_loop h m xs acc of
        Inl e \<Rightarrow> Inl e
      | Inr acc' \<Rightarrow> process_loop h m ys acc')"
proof (induction xs arbitrary: acc)
  case Nil
  show ?case by simp
next
  case (Cons x xs)
  obtain ns rs where acc: "acc = (ns, rs)" by (cases acc) auto
  show ?case unfolding acc
    by (simp add: Cons.IH split: sum.splits prod.splits)
qed

lemma process_loop_invalid_nodes:
  assumes "py_getitem hit ''_source'' = Inr src"
    and "pre_process_doc h src = Inr doc"
    and "gen_nodes m doc = Inr (ns, False)"
  shows "process_loop h m (hit # rest) acc = process_loop h m rest acc"
  using assms by (cases acc) simp

lemma process_loop_invalid_relationships:
  assumes "py_getitem hit ''_source'' = Inr src"
    and "pre_process_doc h src = Inr doc"
    and "gen_nodes m doc = Inr (ns, True)"
    and "post_process_nodes h ns = Inr ns'"
    and "gen_relationships m doc ns' = Inr (rs, False)"
  shows "process_loop h m (hit # rest) acc = process_loop h m rest acc"
  using assms by (cases acc) simp

text \<open>
  Claim C1. A document whose node compilation or relationship compilation comes back
  invalid (a required node or a required relationship failed) adds no node and no
  relationship to what \<^verbatim>\<open>_process\<close> returns: alone it yields two empty lists, and
  inside a batch the result, exceptions of other documents included, is that of the batch
  without it.
\<close>

theorem invalid_document_dropped:
  assumes "py_getitem hit ''_source'' = Inr src"
    and "pre_process_doc h src = Inr doc"
    and "gen_nodes m doc = Inr (ns, False) \<or>
         (gen_nodes m doc = Inr (ns, True) \<and> post_process_nodes h ns = Inr ns' \<and>
          gen_relationships m doc ns' = Inr (rs, False))"
  shows "process h m [hit] = Inr ([], []) \<and>
         process h m (before @ hit # after) = process h m (before @ after)"
proof -
  have step: "\<And>rest acc. process_loop h m (hit # rest) acc = process_loop h m rest acc"
    using assms process_loop_invalid_nodes process_loop_invalid_relationships by blast
  have "process h m [hit] = Inr ([], [])"
    by (simp only: process_def step) simp
  moreover have "process h m (before @ hit # after) = process h m (before @ after)"
    by (simp only: process_def process_loop_append step)
  ultimately show ?thesis by simp
qed

lemma ex_gen_nodes: "gen_nodes ex_mapping ex_doc = Inr (ex_nodes, True)"
  by (simp add: ex_defs gen_nodes_def gen_standard_node_def gen_iterative_node_def
      split_dot_def Let_def)

lemma ex_gen_rels: "gen_relationships ex_mapping ex_doc ex_nodes = Inr ([ex_rel], True)"
  using ex_gen_rel
  by (simp add: gen_relationships_def ex_mapping_def ex_rel_def_def ex_new_rel_def)

lemma ex_bad_gen_nodes: "gen_nodes ex_mapping ex_bad_doc = Inr ([], False)"
  by (simp add: ex_defs gen_nodes_def gen_standard_node_def split_dot_def Let_def)

lemma ex_process_step:
  "process_loop no_hooks ex_mapping (ex_hit # rest) (nodes, relationships) =
   process_loop no_hooks ex_mapping rest (nodes @ ex_nodes, relationships @ [ex_rel])"
  using ex_gen_nodes ex_gen_rels
  by (simp add: ex_hit_def pre_process_doc_def post_process_nodes_def
      post_process_relationships_def no_hooks_def)

text \<open>
  Witness for C1: the sample mapping, a document without the path the required node
  \<^verbatim>\<open>owner\<close> requires, between two copies of the sample document, which add their
  nodes and relationships as usual.
\<close>

theorem invalid_document_dropped_witness:
  "py_getitem ex_bad_hit ''_source'' = Inr ex_bad_doc \<and>
   pre_process_doc no_hooks ex_bad_doc = Inr ex_bad_doc \<and>
   gen_nodes ex_mapping ex_bad_doc = Inr ([], False) \<and>
   process no_hooks ex_mapping [ex_bad_hit] = Inr ([], []) \<and>
   process no_hooks ex_mapping ([ex_hit] @ ex_bad_hit # [ex_hit]) =
     process no_hooks ex_mapping ([ex_hit] @ [ex_hit]) \<and>
   process no_hooks ex_mapping ([ex_hit] @ [ex_hit]) =
     Inr (ex_nodes @ ex_nodes, [ex_rel, ex_rel])"
proof -
  have a: "py_getitem ex_bad_hit ''_source'' = Inr ex_bad_doc"
    by (simp add: ex_bad_hit_def)
  have b: "pre_process_doc no_hooks ex_bad_doc = Inr ex_bad_doc"
    by (simp add: pre_process_doc_def no_hooks_def)
  have c: "gen_nodes ex_mapping ex_bad_doc = Inr ([], False) \<or>
           (gen_nodes ex_mapping ex_bad_doc = Inr ([], True) \<and>
            post_process_nodes no_hooks [] = Inr [] \<and>
            gen_relationships ex_mapping ex_bad_doc [] = Inr ([], False))"
    using ex_bad_gen_nodes by simp
  have d: "process no_hooks ex_mapping ([ex_hit] @ [ex_hit]) =
             Inr (ex_nodes @ ex_nodes, [ex_rel, ex_rel])"
    by (simp only: process_def append.simps ex_process_step process_loop.simps(1))
  from invalid_document_dropped [OF a b c, of "[ex_hit]" "[ex_hit]"] a b ex_bad_gen_nodes d
  show ?thesis by (intro conjI) (elim conjE, assumption)+
qed

section \<open>Required and unique properties: where the compilers differ\<close>

text \<open>
  Claim C2 says that the standard node compiler stops evaluating properties at the first
  missing required property. The loop of \<^verbatim>\<open>_gen_standard_node\<close> has no
  \<^verbatim>\<open>break\<close>: on the document \<^verbatim>\<open>{"address": 7}\<close> the required property
  \<^verbatim>\<open>name\<close> is missing, the loop goes on to \<^verbatim>\<open>address.city\<close> and the lookup
  raises \<^verbatim>\<open>TypeError\<close>, where a compiler that stops would return the node as
  invalid. The loops of the iterator node compiler and of the relationship compilers do
  stop on the same declarations and document.
\<close>

theorem standard_node_required_failure_continues:
  "recursive_key_check (split_dot ''name'') ex_address_doc = Inr False \<and>
   in_opt ''name'' (nd_requiredProperties ex_person_def) \<and>
   gen_standard_node ex_address_doc ex_person_def ex_person_new = Inl TypeError \<and>
   iter_node_props ex_address_doc ex_person_def JNull ex_person_props ([], [], True) =
     Inr ([], [], False) \<and>
   rel_props ex_address_doc
     (ex_knows_def\<lparr>rd_requiredProperties := Some [''name'']\<rparr>) ex_person_props ([], [], True) =
     Inr ([], [], False)"
  by (simp add: ex_defs gen_standard_node_def split_dot_def)

text \<open>
  Claim C7 says that a standard relationship partitions its properties as node
  compilation does, and that a unique property missing from the document adds no unique
  entry and raises nothing. In \<^verbatim>\<open>_gen_standard_relationship\<close> the copy into
  \<^verbatim>\<open>unique_properties\<close> stands outside the test that the path was found: for the
  unique property \<^verbatim>\<open>since\<close>, missing from the sample document, it reads
  \<^verbatim>\<open>properties['since']\<close> and raises \<^verbatim>\<open>KeyError\<close>. The node compiler, given the
  same declarations and document, returns a valid node without that property.
\<close>

theorem standard_relationship_unique_absent_raises:
  "recursive_key_check (split_dot ''since'') ex_doc = Inr False \<and>
   gen_standard_relationship ex_doc ex_knows_def [ex_plain_node ''a'', ex_plain_node ''b'']
     ex_knows_new = Inl KeyError \<and>
   gen_standard_node ex_doc ex_since_node_def (ex_plain_node ''a'') =
     Inr (ex_plain_node ''a'', True)"
  by (simp add: ex_defs gen_standard_relationship_def gen_standard_node_def split_dot_def Let_def)

section \<open>Iterator relationships and the \<^verbatim>\<open>ITER!\<close> sentinel\<close>

lemma update_keys: "fst ` set (AList.update k v al) = insert k (fst ` set al)"
  by (simp add: dom_update)

lemma rel_props_names:
  "rel_props doc rel ps (p0, u0, v0) = Inr (p, u, v) \<Longrightarrow>
   name \<in> set (map fst p) \<union> set (map fst u) \<Longrightarrow>
   name \<in> set (map fst p0) \<union> set (map fst u0) \<or>
   (\<exists>pd. (name, pd) \<in> set ps \<and> recursive_key_check (split_dot (pd_key pd)) doc = Inr True)"
proof (induction ps arbitrary: p0 u0 v0)
  case Nil
  then show ?case by simp
next
  case (Cons a ps)
  obtain n pd where a: "a = (n, pd)" by (cases a) auto
  show ?case
  proof (cases "recursive_key_check (split_dot (pd_key pd)) doc")
    case (Inl e)
    with Cons.prems a show ?thesis by simp
  next
    case (Inr found)
    show ?thesis
    proof (cases found)
      case True
      then obtain val where g: "recursive_get_value (split_dot (pd_key pd)) doc = Inr val"
        using Cons.prems(1) a Inr by (cases "recursive_get_value (split_dot (pd_key pd)) doc") auto
      let ?p1 = "AList.update n \<lparr>pv_value = val, pv_type = pd_type pd\<rparr> p0"
      from Cons.prems(1) a Inr True g obtain u1 where
        r: "rel_props doc rel ps (?p1, u1, v0) = Inr (p, u, v)"
        and u1: "set (map fst u1) \<subseteq> insert n (set (map fst u0))"
        by (auto simp: update_keys split: if_splits option.splits)
      from Cons.IH [OF r Cons.prems(2)] u1 a Inr True show ?thesis
        by (auto simp: update_keys)
    next
      case False
      show ?thesis
      proof (cases "in_opt n (rd_requiredProperties rel)")
        case True
        with Cons.prems a Inr False show ?thesis by auto
      next
        case nreq: False
        from Cons.prems(1) a Inr False nreq obtain u1 where
          r: "rel_props doc rel ps (p0, u1, v0) = Inr (p, u, v)"
          and u1: "set (map fst u1) \<subseteq> set (map fst p0) \<union> set (map fst u0)"
          by (auto simp: update_keys split: if_splits option.splits dest: map_of_Some_in_keys)
        from Cons.IH [OF r Cons.prems(2)] u1 show ?thesis by auto
      qed
    qed
  qed
qed

text \<open>
  Claim C8, as amended. The relationship compiler has no case for the sentinel: a
  property of an iterator relationship whose source path is \<^verbatim>\<open>ITER!\<close> is looked up
  in the document like any other path. When the document has no entry \<^verbatim>\<open>ITER!\<close>,
  a relationship that compiles as valid has instances, and none of them carries that
  property, neither among its properties nor among its unique properties.
\<close>

theorem relationship_iter_sentinel_is_a_document_path:
  assumes "gen_iterative_relationship doc rel nodes nr = Inr (r, True)"
    and "rd_properties rel = Some ps"
    and "\<forall>pd. (name, pd) \<in> set ps \<longrightarrow> pd_key pd = ''ITER!''"
    and "py_contains ''ITER!'' doc = Inr False"
  shows "\<exists>ris. cr_instances r = Some ris \<and> ris \<noteq> [] \<and>
           (\<forall>ri \<in> set ris. name \<notin> set (prop_names (ri_properties ri)) \<and>
                            name \<notin> set (prop_names (ri_uniqueProperties ri)))"
proof -
  from assms(1) obtain ris n where
    l: "rel_instances_loop n doc rel [] = Inr ris" and ne: "ris \<noteq> []"
    and i: "cr_instances r = Some ris"
    by (auto simp: gen_iterative_relationship_def Let_def
        split: option.splits sum.splits if_splits prod.splits)
  from rel_instances_loop_nonempty [OF l ne] obtain p u where
    b: "rel_body doc rel = Inr (p, u, True)"
    and ris: "ris = replicate n (rel_instance_of rel p u)" by blast
  from b assms(2) have rp: "rel_props doc rel ps ([], [], True) = Inr (p, u, True)"
    by (simp add: rel_body_def)
  have k: "split_dot ''ITER!'' = [''ITER!'']" by (simp add: split_dot_def)
  have "name \<notin> set (map fst p) \<union> set (map fst u)"
  proof
    assume "name \<in> set (map fst p) \<union> set (map fst u)"
    from rel_props_names [OF rp this] obtain pd where
      "(name, pd) \<in> set ps" "recursive_key_check (split_dot (pd_key pd)) doc = Inr True"
      by auto
    with assms(3) assms(4) k show False by simp
  qed
  then have "name \<notin> set (prop_names (ri_properties (rel_instance_of rel p u))) \<and>
             name \<notin> set (prop_names (ri_uniqueProperties (rel_instance_of rel p u)))"
    by (simp add: rel_instance_of_def Let_def)
  with i ne ris show ?thesis by simp
qed

text \<open>
  Witness for C8: the sample relationship declares \<^verbatim>\<open>tag\<close> with the source path
  \<^verbatim>\<open>ITER!\<close>.
\<close>

theorem relationship_iter_sentinel_is_a_document_path_witness:
  "gen_iterative_relationship ex_doc ex_rel_def ex_nodes ex_new_rel = Inr (ex_rel, True) \<and>
   rd_properties ex_rel_def = Some [(''tag'', \<lparr>pd_key = ''ITER!'', pd_type = ''string''\<rparr>)] \<and>
   py_contains ''ITER!'' ex_doc = Inr False \<and>
   (\<exists>ris. cr_instances ex_rel = Some ris \<and> ris \<noteq> [] \<and>
           (\<forall>ri \<in> set ris. ''tag'' \<notin> set (prop_names (ri_properties ri)) \<and>
                            ''tag'' \<notin> set (prop_names (ri_uniqueProperties ri))))"
proof -
  have a: "rd_properties ex_rel_def = Some [(''tag'', \<lparr>pd_key = ''ITER!'', pd_type = ''string''\<rparr>)]"
    by (simp add: ex_rel_def_def)
  have b: "\<forall>pd. (''tag'', pd) \<in> set [(''tag'', \<lparr>pd_key = ''ITER!'', pd_type = ''string''\<rparr>)]
             \<longrightarrow> pd_key pd = ''ITER!''"
    by simp
  have c: "py_contains ''ITER!'' ex_doc = Inr False"
    by (simp add: ex_doc_def)
  show ?thesis
    by (rule conjI [OF ex_gen_rel conjI [OF a conjI [OF c
          relationship_iter_sentinel_is_a_document_path [OF ex_gen_rel a b c]]]])
qed

text \<open>
  Counterexample to C8 as stated: on the sample document the iterator node binds its
  \<^verbatim>\<open>ITER!\<close> property \<^verbatim>\<open>name\<close> to the elements \<^verbatim>\<open>a\<close> and \<^verbatim>\<open>b\<close> of the
  array, while the two instances of the relationship, whose property \<^verbatim>\<open>tag\<close> has the
  same source path, carry no property at all.
\<close>

theorem relationship_iter_sentinel_not_bound:
  "gen_nodes ex_mapping ex_doc = Inr (ex_nodes, True) \<and>
   gen_iterative_relationship ex_doc ex_rel_def ex_nodes ex_new_rel = Inr (ex_rel, True) \<and>
   rd_properties ex_rel_def = Some [(''tag'', \<lparr>pd_key = ''ITER!'', pd_type = ''string''\<rparr>)] \<and>
   nd_properties ex_tag_def = Some [(''name'', \<lparr>pd_key = ''ITER!'', pd_type = ''string''\<rparr>)] \<and>
   map ni_properties (case cn_instances ex_tag_node of Some nis \<Rightarrow> nis | None \<Rightarrow> []) =
     [Some [(''name'', \<lparr>pv_value = JStr ''a'', pv_type = ''string''\<rparr>)],
      Some [(''name'', \<lparr>pv_value = JStr ''b'', pv_type = ''string''\<rparr>)]] \<and>
   map ri_properties (case cr_instances ex_rel of Some ris \<Rightarrow> ris | None \<Rightarrow> []) =
     [None, None]"
  using ex_gen_nodes ex_gen_rel
  by (simp add: ex_rel_def_def ex_tag_def_def ex_tag_node_def ex_tag_instance_def ex_rel_def
      ex_rel_instance_def)

section \<open>Relationships that reference an undefined node\<close>

lemma gen_standard_node_id:
  "gen_standard_node doc node new_node = Inr (n, v) \<Longrightarrow> cn_id n = cn_id new_node"
  by (auto simp: gen_standard_node_def Let_def split: sum.splits option.splits if_splits prod.splits)

lemma gen_iterative_node_id:
  "gen_iterative_node doc node new_node = Inr (n, v) \<Longrightarrow> cn_id n = cn_id new_node"
  by (auto simp: gen_iterative_node_def Let_def split: sum.splits option.splits if_splits bool.splits)

lemma gen_nodes_loop_ids:
  "gen_nodes_loop doc defs acc = Inr (ns, v) \<Longrightarrow>
   set (map cn_id ns) \<subseteq> set (map cn_id acc) \<union> set (map nd_id defs)"
proof (induction defs arbitrary: acc)
  case Nil
  then show ?case by auto
next
  case (Cons d ds)
  let ?new = "\<lparr>cn_nodeType = nd_nodeType d, cn_labels = nd_labels d, cn_id = nd_id d,
             cn_properties = None, cn_uniqueProperties = None, cn_uniqueLabels = None,
             cn_instances = None\<rparr>"
  let ?res = "if nd_nodeType d = ''standard'' then gen_standard_node doc d ?new
               else if nd_nodeType d = ''iterator'' then gen_iterative_node doc d ?new
               else Inr (?new, False)"
  from Cons.prems obtain n valid where res: "?res = Inr (n, valid)"
    by (cases ?res) (auto simp: Let_def)
  have nid: "cn_id n = nd_id d"
    using res gen_standard_node_id [of doc d ?new n valid]
      gen_iterative_node_id [of doc d ?new n valid]
    by (auto split: if_splits)
  show ?case
  proof (cases valid)
    case True
    with Cons.prems res have "gen_nodes_loop doc ds (acc @ [n]) = Inr (ns, v)"
      by (simp add: Let_def)
    from Cons.IH [OF this] nid show ?thesis by auto
  next
    case False
    show ?thesis
    proof (cases "nd_required d")
      case True
      with Cons.prems res False have "ns = acc" by (simp add: Let_def)
      then show ?thesis by auto
    next
      case nr: False
      with Cons.prems res False have "gen_nodes_loop doc ds acc = Inr (ns, v)"
        by (simp add: Let_def)
      from Cons.IH [OF this] show ?thesis by auto
    qed
  qed
qed

lemma gen_nodes_ids:
  "gen_nodes m doc = Inr (ns, v) \<Longrightarrow> set (map cn_id ns) \<subseteq> set (map nd_id (m_nodes m))"
  using gen_nodes_loop_ids [of doc "m_nodes m" "[]" ns v] by (simp add: gen_nodes_def)

lemma find_endpoint_none:
  "rid \<notin> set (map cn_id nodes) \<Longrightarrow> find_endpoint rid nodes st = st"
proof (induction nodes arbitrary: st)
  case Nil
  show ?case by simp
next
  case (Cons n ns)
  obtain a b where "st = (a, b)" by (cases st) auto
  with Cons show ?case by auto
qed

lemma standard_relationship_unresolved:
  assumes "rd_sourceNode rel \<notin> set (map cn_id nodes) \<or>
           rd_destinationNode rel \<notin> set (map cn_id nodes)"
  shows "\<exists>r. gen_standard_relationship doc rel nodes nr = Inr (r, False)"
  using assms
  by (auto simp: gen_standard_relationship_def Let_def find_endpoint_none)

lemma find_iter_endpoint_found:
  "find_iter_endpoint rid nodes (slot, False, c, it) = (slot', True, c', it') \<Longrightarrow>
   rid \<in> set (map cn_id nodes)"
  by (rule ccontr) (simp add: find_iter_endpoint_none)

lemma iterative_relationship_unresolved:
  assumes "rd_sourceNode rel \<notin> set (map cn_id nodes) \<or>
           rd_destinationNode rel \<notin> set (map cn_id nodes)"
  shows "\<exists>r. gen_iterative_relationship doc rel nodes nr = Inr (r, False)"
proof -
  obtain src sf n1 it1 where a:
    "find_iter_endpoint (rd_sourceNode rel) nodes (cr_sourceNode nr, False, 0, None) =
       (src, sf, n1, it1)"
    by (cases "find_iter_endpoint (rd_sourceNode rel) nodes (cr_sourceNode nr, False, 0, None)")
      auto
  obtain dst df n2 it2 where b:
    "find_iter_endpoint (rd_destinationNode rel) nodes (cr_destinationNode nr, False, n1, it1) =
       (dst, df, n2, it2)"
    by (cases "find_iter_endpoint (rd_destinationNode rel) nodes
                 (cr_destinationNode nr, False, n1, it1)") auto
  have "\<not> (sf \<and> df)"
  proof
    assume "sf \<and> df"
    then have sf: sf and df: df by simp_all
    have "rd_sourceNode rel \<in> set (map cn_id nodes)"
      using a sf
        find_iter_endpoint_found [of "rd_sourceNode rel" nodes "cr_sourceNode nr" 0 None src n1 it1]
      by simp
    moreover have "rd_destinationNode rel \<in> set (map cn_id nodes)"
      using b df
        find_iter_endpoint_found [of "rd_destinationNode rel" nodes "cr_destinationNode nr" n1 it1
          dst n2 it2]
      by simp
    ultimately show False using assms by simp
  qed
  with a b show ?thesis
    by (auto simp: gen_iterative_relationship_def Let_def)
qed

text \<open>
  Claim C5, as amended. Loading accepts every mapping that parses: \<^verbatim>\<open>_load_mapping\<close>
  returns it unchanged. A relationship whose source or destination is no node id of the
  mapping is found out per document, at compilation: against the nodes compiled from any
  document it comes back invalid, as a standard and as an iterator relationship, and
  raises nothing.
\<close>

theorem dangling_reference_found_per_document:
  assumes "rd_sourceNode rel \<notin> set (map nd_id (m_nodes m)) \<or>
           rd_destinationNode rel \<notin> set (map nd_id (m_nodes m))"
    and "gen_nodes m doc = Inr (nodes, v)"
  shows "load_mapping (Parsed m) = Inr m \<and>
         (\<exists>r. gen_standard_relationship doc rel nodes nr = Inr (r, False)) \<and>
         (\<exists>r. gen_iterative_relationship doc rel nodes nr = Inr (r, False))"
proof -
  from gen_nodes_ids [OF assms(2)] assms(1)
  have u: "rd_sourceNode rel \<notin> set (map cn_id nodes) \<or>
           rd_destinationNode rel \<notin> set (map cn_id nodes)"
    by auto
  have "load_mapping (Parsed m) = Inr m" by (simp add: load_mapping_def)
  with standard_relationship_unresolved [OF u] iterative_relationship_unresolved [OF u]
  show ?thesis by simp
qed

lemma ex_dangling_gen_nodes: "gen_nodes ex_dangling_mapping ex_doc = Inr (ex_nodes, True)"
  using ex_gen_nodes by (simp add: gen_nodes_def ex_dangling_mapping_def ex_mapping_def)

text \<open>
  Witness for C5: the sample mapping with the relationship \<^verbatim>\<open>OWNS\<close>, whose
  destination \<^verbatim>\<open>nobody\<close> is no node of the mapping.
\<close>

theorem dangling_reference_found_per_document_witness:
  "rd_destinationNode ex_dangling_def \<notin> set (map nd_id (m_nodes ex_dangling_mapping)) \<and>
   gen_nodes ex_dangling_mapping ex_doc = Inr (ex_nodes, True) \<and>
   load_mapping (Parsed ex_dangling_mapping) = Inr ex_dangling_mapping \<and>
   (\<exists>r. gen_standard_relationship ex_doc ex_dangling_def ex_nodes ex_dangling_new = Inr (r, False)) \<and>
   (\<exists>r. gen_iterative_relationship ex_doc ex_dangling_def ex_nodes ex_dangling_new = Inr (r, False))"
proof -
  have a: "rd_destinationNode ex_dangling_def \<notin> set (map nd_id (m_nodes ex_dangling_mapping))"
    by (simp add: ex_defs)
  then have b: "rd_sourceNode ex_dangling_def \<notin> set (map nd_id (m_nodes ex_dangling_mapping)) \<or>
           rd_destinationNode ex_dangling_def \<notin> set (map nd_id (m_nodes ex_dangling_mapping))"
    by (rule disjI2)
  show ?thesis
    by (rule conjI [OF a conjI [OF ex_dangling_gen_nodes
          dangling_reference_found_per_document [OF b ex_dangling_gen_nodes]]])
qed

text \<open>
  Counterexample to C5 as stated: the mapping with the dangling relationship is loaded
  and returned as it is; the reference is rejected only when the sample document is
  compiled, where the required relationship makes the document invalid.
\<close>

theorem dangling_reference_accepted_at_load:
  "ex_dangling_def \<in> set (m_relationships ex_dangling_mapping) \<and>
   rd_destinationNode ex_dangling_def \<notin> set (map nd_id (m_nodes ex_dangling_mapping)) \<and>
   load_mapping (Parsed ex_dangling_mapping) = Inr ex_dangling_mapping \<and>
   gen_relationships ex_dangling_mapping ex_doc ex_nodes = Inr ([], False)"
  by (simp add: ex_defs load_mapping_def gen_relationships_def gen_standard_relationship_def
      Let_def)

section \<open>Execution: a failing statement\<close>

lemma execute_loop_append:
  "execute_loop tx (xs @ ys) st =
     (case execute_loop tx xs st of
        (st', Some e) \<Rightarrow> (st', Some e)
      | (st', None) \<Rightarrow> execute_loop tx ys st')"
proof (induction xs arbitrary: st)
  case Nil
  show ?case by simp
next
  case (Cons x xs)
  show ?case
    by (simp add: Cons.IH Let_def split: prod.splits sum.splits)
qed

lemma execute_statements_as_loop:
  "execute_statements tx node_statements relationship_statements st =
     execute_loop tx (node_statements @ relationship_statements)
       (log_record ''info'' (execute_message node_statements relationship_statements) st)"
  by (simp add: execute_statements_def execute_loop_append Let_def
      split: prod.splits option.splits)

lemma execute_loop_failure:
  assumes "tx s (es_db st) = (Inl e, db')"
  shows "execute_loop tx (s # post) st =
           (st\<lparr>es_db := db',
               es_log := es_log st @ [(''debug'', ''executing statement: '' @ s)]\<rparr>, Some e)"
  using assms by (simp add: Let_def log_record_def)

text \<open>
  Claim C9, as amended. Let the statements of a batch, node statements first, be
  \<open>pre\<close>, then \<open>s\<close>, then \<open>post\<close>, let \<open>pre\<close> execute without failure and let the
  sink fail on \<open>s\<close>. Then \<^verbatim>\<open>_execute_statements\<close> ends with that exception. The
  store is what the sink left after \<open>pre\<close> and the failing call, so nothing executed
  before is rolled back; \<open>s\<close> was submitted once; the last log record is the debug
  line announcing \<open>s\<close>, so the failure is not reported; and the result does not depend
  on \<open>post\<close>, none of which is executed.
\<close>

theorem execution_stops_at_first_failure:
  assumes "node_statements @ relationship_statements = pre @ s # post"
    and "execute_loop tx pre
           (log_record ''info'' (execute_message node_statements relationship_statements) st)
         = (st1, None)"
    and "tx s (es_db st1) = (Inl e, db')"
  shows "execute_statements tx node_statements relationship_statements st =
           (st1\<lparr>es_db := db',
                es_log := es_log st1 @ [(''debug'', ''executing statement: '' @ s)]\<rparr>, Some e)"
  using assms(2) assms(3) execute_loop_failure [of tx s st1 e db' post]
  by (simp only: execute_statements_as_loop assms(1) execute_loop_append) simp

text \<open>
  Witness for C9: three node statements, the second of which the sample sink rejects,
  and one relationship statement.
\<close>

theorem execution_stops_at_first_failure_witness:
  "[''N1'', ''BAD'', ''N2''] @ [''R1''] = [''N1''] @ ''BAD'' # [''N2'', ''R1''] \<and>
   execute_loop ex_sink [''N1'']
     (log_record ''info'' (execute_message [''N1'', ''BAD'', ''N2''] [''R1'']) ex_start) =
     (\<lparr>es_db = [''N1''],
       es_log = [(''info'', ''executing 3 node statements and 1 relationship statements against database''),
                 (''debug'', ''executing statement: N1''),
                 (''debug'', ''execution result: ok'')]\<rparr>, None) \<and>
   ex_sink ''BAD'' [''N1''] = (Inl ''boom'', [''N1'']) \<and>
   execute_statements ex_sink [''N1'', ''BAD'', ''N2''] [''R1''] ex_start =
     (\<lparr>es_db = [''N1''],
       es_log = [(''info'', ''executing 3 node statements and 1 relationship statements against database''),
                 (''debug'', ''executing statement: N1''),
                 (''debug'', ''execution result: ok''),
                 (''debug'', ''executing statement: BAD'')]\<rparr>, Some ''boom'')"
proof -
  let ?st1 = "\<lparr>es_db = [''N1''],
       es_log = [(''info'', ''executing 3 node statements and 1 relationship statements against database''),
                 (''debug'', ''executing statement: N1''),
                 (''debug'', ''execution result: ok'')]\<rparr>"
  have a: "[''N1'', ''BAD'', ''N2''] @ [''R1''] = [''N1''] @ ''BAD'' # [''N2'', ''R1'']"
    by simp
  have b: "execute_loop ex_sink [''N1'']
     (log_record ''info'' (execute_message [''N1'', ''BAD'', ''N2''] [''R1'']) ex_start) =
     (?st1, None)"
    by (simp add: ex_sink_def ex_start_def log_record_def execute_message_def digit_char_def Let_def)
  have c: "ex_sink ''BAD'' (es_db ?st1) = (Inl ''boom'', [''N1''])"
    by (simp add: ex_sink_def)
  have c': "ex_sink ''BAD'' [''N1''] = (Inl ''boom'', [''N1''])"
    by (simp add: ex_sink_def)
  from execution_stops_at_first_failure [OF a b c]
  have d: "execute_statements ex_sink [''N1'', ''BAD'', ''N2''] [''R1''] ex_start =
     (\<lparr>es_db = [''N1''],
       es_log = [(''info'', ''executing 3 node statements and 1 relationship statements against database''),
                 (''debug'', ''executing statement: N1''),
                 (''debug'', ''execution result: ok''),
                 (''debug'', ''executing statement: BAD'')]\<rparr>, Some ''boom'')"
    by simp
  show ?thesis by (rule conjI [OF a conjI [OF b conjI [OF c' d]]])
qed

text \<open>
  Counterexample to C9 as stated: when the first statement fails, the two statements
  after it are never executed (the store stays empty, while without the failing
  statement both are executed), and no record of the failure is logged.
\<close>

theorem failed_statement_ends_execution:
  "execute_statements ex_sink [''BAD'', ''N2''] [''R1''] ex_start =
     (\<lparr>es_db = [],
       es_log = [(''info'', ''executing 2 node statements and 1 relationship statements against database''),
                 (''debug'', ''executing statement: BAD'')]\<rparr>, Some ''boom'') \<and>
   execute_statements ex_sink [''N2''] [''R1''] ex_start =
     (\<lparr>es_db = [''N2'', ''R1''],
       es_log = [(''info'', ''executing 1 node statements and 1 relationship statements against database''),
                 (''debug'', ''executing statement: N2''),
                 (''debug'', ''execution result: ok''),
                 (''debug'', ''executing statement: R1''),
                 (''debug'', ''execution result: ok'')]\<rparr>, None)"
  by (simp add: execute_statements_def ex_sink_def ex_start_def log_record_def
      execute_message_def digit_char_def Let_def)

section \<open>Statement generator: the \<^verbatim>\<open>MERGE\<close> pattern of a node\<close>

lemma update_fresh: "k \<notin> fst ` set al \<Longrightarrow> AList.update k v al = al @ [(k, v)]"
  by (induction al) auto

lemma get_missing_props_filter:
  "distinct (map fst (acc @ ps)) \<Longrightarrow>
   get_missing_props ps up acc = acc @ non_unique ps up"
proof (induction ps arbitrary: acc)
  case Nil
  show ?case by (simp add: non_unique_def)
next
  case (Cons a ps)
  obtain k v where a: "a = (k, v)" by (cases a) auto
  show ?case
  proof (cases "k \<in> set (map fst up)")
    case True
    from Cons.prems a have "distinct (map fst (acc @ ps))" by simp
    from Cons.IH [OF this] True a show ?thesis by (simp add: non_unique_def)
  next
    case False
    from Cons.prems a have f: "k \<notin> fst ` set acc" by auto
    from Cons.prems a have "distinct (map fst ((acc @ [(k, v)]) @ ps))" by auto
    from Cons.IH [OF this] False a f show ?thesis
      by (simp add: non_unique_def update_fresh)
  qed
qed

lemma get_missing_labels_filter:
  "get_missing_labels labels ul = filter (\<lambda>l. l \<notin> set ul) labels"
  by (induction labels) auto

lemma iterator_need_to_set_all_unique:
  "set (map fst ps) \<subseteq> set (map fst up) \<Longrightarrow> iterator_need_to_set ps up acc = Inr acc"
proof (induction ps arbitrary: acc)
  case Nil
  show ?case by simp
next
  case (Cons a ps)
  obtain k v where a: "a = (k, v)" by (cases a) auto
  with Cons.prems have "k \<in> set (map fst up)" and "set (map fst ps) \<subseteq> set (map fst up)"
    by simp_all
  with Cons.IH a show ?case by simp
qed

lemma properties_string_empty: "gen_properties_string [] False ml var opening = []"
  by (simp add: gen_properties_string_def)

lemma standard_merge_with_unique_properties:
  assumes "cn_uniqueProperties node = Some up" and "cn_properties node = Some ps"
    and "distinct (map fst ps)"
  shows "gen_standard_node_statements node =
           Inr [merge_pattern (case cn_uniqueLabels node of Some ul \<Rightarrow> ul | None \<Rightarrow> cn_labels node)
                  (Some up)
                @ set_clause (non_unique ps up)
                    (extra_labels (cn_labels node) (cn_uniqueLabels node))]"
proof -
  have g: "get_missing_props ps up [] = non_unique ps up"
    using get_missing_props_filter [of "[]" ps up] assms(3) by simp
  show ?thesis
    using assms(1,2)
    by (cases "cn_uniqueLabels node")
      (simp_all add: gen_standard_node_statements_def Let_def g merge_pattern_def set_clause_def
        extra_labels_def get_missing_labels_filter properties_string_empty)
qed

lemma standard_merge_with_unique_labels_only:
  assumes "cn_uniqueProperties node = None" and "cn_uniqueLabels node = Some ul"
  shows "gen_standard_node_statements node =
           Inr [merge_pattern ul (cn_properties node)
                @ set_clause [] (extra_labels (cn_labels node) (Some ul))]"
  using assms
  by (cases "cn_properties node")
    (simp_all add: gen_standard_node_statements_def Let_def merge_pattern_def set_clause_def
      extra_labels_def get_missing_labels_filter properties_string_empty)

lemma instance_merge_with_unique_labels_only:
  assumes "ni_uniqueProperties inst = None" and "ni_uniqueLabels inst = Some ul"
  shows "iterator_instance_statement inst =
           Inr (merge_pattern ul (ni_properties inst)
                @ set_clause [] (extra_labels (ni_labels inst) (Some ul)))"
  using assms
  by (cases "ni_properties inst")
    (simp_all add: iterator_instance_statement_def Let_def merge_pattern_def set_clause_def
      extra_labels_def get_missing_labels_filter properties_string_empty)

lemma instance_merge_all_unique:
  assumes "ni_uniqueProperties inst = Some up" and "ni_properties inst = Some ps"
    and "set (map fst ps) \<subseteq> set (map fst up)"
  shows "iterator_instance_statement inst =
           Inr (merge_pattern (case ni_uniqueLabels inst of Some ul \<Rightarrow> ul | None \<Rightarrow> ni_labels inst)
                  (Some up)
                @ set_clause [] (extra_labels (ni_labels inst) (ni_uniqueLabels inst)))"
proof -
  have g: "iterator_need_to_set ps up [] = Inr []"
    using iterator_need_to_set_all_unique [OF assms(3)] .
  show ?thesis
    using assms(1,2)
    by (cases "ni_uniqueLabels inst")
      (simp_all add: iterator_instance_statement_def Let_def g merge_pattern_def set_clause_def
        extra_labels_def get_missing_labels_filter properties_string_empty)
qed

text \<open>
  Claim C3, as amended. (1) For a compiled standard node with unique properties (the
  keys of its properties distinct), the \<^verbatim>\<open>MERGE\<close> pattern holds the unique labels,
  or all labels when there are none, and the unique properties only; every other
  property follows in the \<^verbatim>\<open>SET\<close> clause with its value from the properties, and the
  labels that are no unique labels follow it. (2) For a standard node with unique labels
  and no unique properties, the \<^verbatim>\<open>MERGE\<close> pattern holds the unique labels and all
  properties, and only the other labels are set after it. (3) The same holds for an
  iterator node instance with unique labels and no unique properties. (4) For an
  iterator node instance all of whose properties are unique properties, the statement is
  the \<^verbatim>\<open>MERGE\<close> pattern with the unique labels, or all labels, and the unique
  properties, followed by the other labels.
\<close>

theorem merge_statement_shape:
  "(cn_uniqueProperties node = Some up \<and> cn_properties node = Some ps \<and> distinct (map fst ps) \<longrightarrow>
      gen_standard_node_statements node =
        Inr [merge_pattern (case cn_uniqueLabels node of Some ul \<Rightarrow> ul | None \<Rightarrow> cn_labels node)
               (Some up)
             @ set_clause (non_unique ps up)
                 (extra_labels (cn_labels node) (cn_uniqueLabels node))]) \<and>
   (cn_uniqueProperties node = None \<and> cn_uniqueLabels node = Some ul \<longrightarrow>
      gen_standard_node_statements node =
        Inr [merge_pattern ul (cn_properties node)
             @ set_clause [] (extra_labels (cn_labels node) (Some ul))]) \<and>
   (ni_uniqueProperties inst = None \<and> ni_uniqueLabels inst = Some iul \<longrightarrow>
      iterator_instance_statement inst =
        Inr (merge_pattern iul (ni_properties inst)
             @ set_clause [] (extra_labels (ni_labels inst) (Some iul)))) \<and>
   (ni_uniqueProperties inst = Some iup \<and> ni_properties inst = Some ips \<and>
    set (map fst ips) \<subseteq> set (map fst iup) \<longrightarrow>
      iterator_instance_statement inst =
        Inr (merge_pattern (case ni_uniqueLabels inst of Some ul \<Rightarrow> ul | None \<Rightarrow> ni_labels inst)
               (Some iup)
             @ set_clause [] (extra_labels (ni_labels inst) (ni_uniqueLabels inst))))"
  using standard_merge_with_unique_properties [of node up ps]
    standard_merge_with_unique_labels_only [of node ul]
    instance_merge_with_unique_labels_only [of inst iul]
    instance_merge_all_unique [of inst iup ips]
  by (intro conjI impI) (elim conjE, simp)+

lemmas statement_defs = gen_standard_node_statements_def iterator_instance_statement_def
  gen_properties_string_def get_property_value_def merge_pattern_def set_clause_def
  non_unique_def extra_labels_def show_int_def digit_char_def Let_def

text \<open>
  Witness for C3: one compiled node or instance for each of the four cases, with the
  statement it generates.
\<close>

theorem merge_statement_shape_witness:
  \<open>cn_uniqueProperties ex_keyed_node = Some [(''id'', ex_id_value)] \<and>
   cn_properties ex_keyed_node = Some [(''id'', ex_id_value), (''name'', ex_name_value)] \<and>
   gen_standard_node_statements ex_keyed_node =
     Inr [''MERGE (n:Person {id: 7}) SET n.name = "ann", n:Client''] \<and>
   cn_uniqueProperties ex_label_node = None \<and>
   cn_uniqueLabels ex_label_node = Some [''Person''] \<and>
   gen_standard_node_statements ex_label_node =
     Inr [''MERGE (n:Person {name: "ann"})SET n:Client''] \<and>
   ni_uniqueProperties ex_label_instance = None \<and>
   ni_uniqueLabels ex_label_instance = Some [''Tag''] \<and>
   iterator_instance_statement ex_label_instance =
     Inr ''MERGE (n:Tag {name: "ann"})SET n:Hot'' \<and>
   ni_uniqueProperties ex_unique_instance = Some [(''id'', ex_id_value)] \<and>
   ni_properties ex_unique_instance = Some [(''id'', ex_id_value)] \<and>
   iterator_instance_statement ex_unique_instance = Inr ''MERGE (n:Tag {id: 7})''\<close>
proof -
  have a1: "cn_uniqueProperties ex_keyed_node = Some [(''id'', ex_id_value)]"
    and a2: "cn_properties ex_keyed_node = Some [(''id'', ex_id_value), (''name'', ex_name_value)]"
    and a3: "distinct (map fst [(''id'', ex_id_value), (''name'', ex_name_value)])"
    by (simp_all add: ex_keyed_node_def)
  have b1: "cn_uniqueProperties ex_label_node = None"
    and b2: "cn_uniqueLabels ex_label_node = Some [''Person'']"
    by (simp_all add: ex_label_node_def)
  have c1: "ni_uniqueProperties ex_label_instance = None"
    and c2: "ni_uniqueLabels ex_label_instance = Some [''Tag'']"
    by (simp_all add: ex_label_instance_def)
  have d1: "ni_uniqueProperties ex_unique_instance = Some [(''id'', ex_id_value)]"
    and d2: "ni_properties ex_unique_instance = Some [(''id'', ex_id_value)]"
    and d3: "set (map fst [(''id'', ex_id_value)]) \<subseteq> set (map fst [(''id'', ex_id_value)])"
    by (simp_all add: ex_unique_instance_def)
  have a: \<open>gen_standard_node_statements ex_keyed_node =
     Inr [''MERGE (n:Person {id: 7}) SET n.name = "ann", n:Client'']\<close>
    using merge_statement_shape [of ex_keyed_node "[(''id'', ex_id_value)]"
        "[(''id'', ex_id_value), (''name'', ex_name_value)]" ul inst iul iup ips] a1 a2 a3
    by (simp add: ex_keyed_node_def ex_id_value_def ex_name_value_def merge_pattern_def
        set_clause_def non_unique_def extra_labels_def gen_properties_string_def
        get_property_value_def show_int_def digit_char_def)
  have b: \<open>gen_standard_node_statements ex_label_node =
     Inr [''MERGE (n:Person {name: "ann"})SET n:Client'']\<close>
    using merge_statement_shape [of ex_label_node up ps "[''Person'']" inst iul iup ips] b1 b2
    by (simp add: ex_label_node_def ex_id_value_def ex_name_value_def merge_pattern_def
        set_clause_def non_unique_def extra_labels_def gen_properties_string_def
        get_property_value_def show_int_def digit_char_def)
  have c: \<open>iterator_instance_statement ex_label_instance =
     Inr ''MERGE (n:Tag {name: "ann"})SET n:Hot''\<close>
    using merge_statement_shape [of node up ps ul ex_label_instance "[''Tag'']" iup ips] c1 c2
    by (simp add: ex_label_instance_def ex_id_value_def ex_name_value_def merge_pattern_def
        set_clause_def non_unique_def extra_labels_def gen_properties_string_def
        get_property_value_def show_int_def digit_char_def)
  have d: \<open>iterator_instance_statement ex_unique_instance = Inr ''MERGE (n:Tag {id: 7})''\<close>
    using merge_statement_shape [of node up ps ul ex_unique_instance iul
        "[(''id'', ex_id_value)]" "[(''id'', ex_id_value)]"] d1 d2 d3
    by (simp add: ex_unique_instance_def ex_id_value_def ex_name_value_def merge_pattern_def
        set_clause_def non_unique_def extra_labels_def gen_properties_string_def
        get_property_value_def show_int_def digit_char_def)
  show ?thesis
    by (intro conjI) (rule a1 a2 a b1 b2 b c1 c2 c d1 d2 d)+
qed

text \<open>
  Counterexample to C3 as stated: a standard node with the unique label \<^verbatim>\<open>Person\<close>,
  no unique properties and the property \<^verbatim>\<open>name\<close>. Its statement uses \<^verbatim>\<open>MERGE\<close>
  and carries \<^verbatim>\<open>name\<close> inside the pattern; it is not the pattern of the unique label
  followed by a \<^verbatim>\<open>SET\<close> clause for \<^verbatim>\<open>name\<close>.
\<close>

theorem merge_on_unique_labels_carries_all_properties:
  \<open>cn_uniqueProperties ex_label_node = None \<and>
   cn_uniqueLabels ex_label_node = Some [''Person''] \<and>
   cn_properties ex_label_node = Some [(''name'', ex_name_value)] \<and>
   gen_standard_node_statements ex_label_node =
     Inr [''MERGE (n:Person {name: "ann"})SET n:Client''] \<and>
   gen_standard_node_statements ex_label_node \<noteq>
     Inr [merge_pattern [''Person''] None
          @ set_clause [(''name'', ex_name_value)] [''Client'']] \<and>
   gen_standard_node_statements ex_label_node \<noteq>
     Inr [merge_pattern [''Person''] (Some [])
          @ set_clause [(''name'', ex_name_value)] [''Client'']]\<close>
  by (simp add: ex_label_node_def ex_name_value_def statement_defs)

text \<open>
  An iterator node instance with the unique property \<^verbatim>\<open>id\<close> and the other property
  \<^verbatim>\<open>name\<close>: the loop that collects the properties to set reads
  \<^verbatim>\<open>instance['uniqueProperties']['name']\<close> and raises \<^verbatim>\<open>KeyError\<close>, where the
  standard node with the same properties generates its statement.
\<close>

lemma iterator_instance_set_clause_raises:
  \<open>iterator_instance_statement ex_keyed_instance = Inl KeyError \<and>
   gen_standard_node_statements ex_keyed_node =
     Inr [''MERGE (n:Person {id: 7}) SET n.name = "ann", n:Client'']\<close>
  by (simp add: ex_keyed_instance_def ex_keyed_node_def ex_id_value_def ex_name_value_def
      statement_defs)

section \<open>Node compilation: node ids and required paths\<close>

text \<open>
  The nodes compiled from a document carry the ids of the mapping's nodes, in order and
  at most once each: when the ids of the mapping are distinct, so are those of the
  compiled nodes.
\<close>

lemma gen_nodes_loop_distinct:
  "gen_nodes_loop doc defs acc = Inr (ns, v) \<Longrightarrow>
   distinct (map cn_id acc @ map nd_id defs) \<Longrightarrow> distinct (map cn_id ns)"
proof (induction defs arbitrary: acc)
  case Nil
  then show ?case by auto
next
  case (Cons d ds)
  let ?new = "\<lparr>cn_nodeType = nd_nodeType d, cn_labels = nd_labels d, cn_id = nd_id d,
             cn_properties = None, cn_uniqueProperties = None, cn_uniqueLabels = None,
             cn_instances = None\<rparr>"
  let ?res = "if nd_nodeType d = ''standard'' then gen_standard_node doc d ?new
               else if nd_nodeType d = ''iterator'' then gen_iterative_node doc d ?new
               else Inr (?new, False)"
  from Cons.prems(1) obtain n valid where res: "?res = Inr (n, valid)"
    by (cases ?res) (auto simp: Let_def)
  have nid: "cn_id n = nd_id d"
    using res gen_standard_node_id [of doc d ?new n valid]
      gen_iterative_node_id [of doc d ?new n valid]
    by (auto split: if_splits)
  show ?case
  proof (cases valid)
    case True
    with Cons.prems(1) res have l: "gen_nodes_loop doc ds (acc @ [n]) = Inr (ns, v)"
      by (simp add: Let_def)
    from Cons.prems(2) nid have "distinct (map cn_id (acc @ [n]) @ map nd_id ds)" by simp
    from Cons.IH [OF l this] show ?thesis .
  next
    case False
    show ?thesis
    proof (cases "nd_required d")
      case True
      with Cons.prems res False have "ns = acc" by (simp add: Let_def)
      with Cons.prems(2) show ?thesis by simp
    next
      case nr: False
      with Cons.prems(1) res False have l: "gen_nodes_loop doc ds acc = Inr (ns, v)"
        by (simp add: Let_def)
      from Cons.prems(2) have "distinct (map cn_id acc @ map nd_id ds)" by simp
      from Cons.IH [OF l this] show ?thesis .
    qed
  qed
qed

lemma gen_nodes_distinct:
  "gen_nodes m doc = Inr (ns, v) \<Longrightarrow> distinct (map nd_id (m_nodes m)) \<Longrightarrow>
   distinct (map cn_id ns)"
  using gen_nodes_loop_distinct [of doc "m_nodes m" "[]" ns v] by (simp add: gen_nodes_def)

text \<open>
  When a required standard node of the mapping lists a property as required and the
  property's path is missing from the document, node compilation, if it returns, declares
  the document invalid.
\<close>

lemma std_node_props_invalid_stays:
  "std_node_props doc node ps (p0, u0, False) = Inr (p, u, v) \<Longrightarrow> \<not> v"
proof (induction ps arbitrary: p0 u0)
  case Nil
  then show ?case by simp
next
  case (Cons a ps)
  obtain name pd where a: "a = (name, pd)" by (cases a) auto
  from Cons.prems a obtain p1 u1 where
    "std_node_props doc node ps (p1, u1, False) = Inr (p, u, v)"
    by (auto simp: Let_def split: sum.splits bool.splits if_splits)
  from Cons.IH [OF this] show ?case .
qed

lemma std_node_props_required_missing:
  "std_node_props doc node ps (p0, u0, v0) = Inr (p, u, v) \<Longrightarrow>
   (name, pd) \<in> set ps \<Longrightarrow> in_opt name (nd_requiredProperties node) \<Longrightarrow>
   recursive_key_check (split_dot (pd_key pd)) doc = Inr False \<Longrightarrow> \<not> v"
proof (induction ps arbitrary: p0 u0 v0)
  case Nil
  then show ?case by simp
next
  case (Cons a ps)
  obtain n' pd' where a: "a = (n', pd')" by (cases a) auto
  show ?case
  proof (cases "a = (name, pd)")
    case True
    with Cons.prems(1,3,4) have "std_node_props doc node ps (p0, u0, False) = Inr (p, u, v)"
      by simp
    from std_node_props_invalid_stays [OF this] show ?thesis .
  next
    case False
    with Cons.prems(2) have m: "(name, pd) \<in> set ps" by simp
    from Cons.prems(1) a obtain p1 u1 v1 where
      "std_node_props doc node ps (p1, u1, v1) = Inr (p, u, v)"
      by (auto simp: Let_def split: sum.splits bool.splits if_splits)
    from Cons.IH [OF this m Cons.prems(3,4)] show ?thesis .
  qed
qed

lemma gen_standard_node_required_missing:
  assumes "gen_standard_node doc node new_node = Inr (n, v)"
    and "nd_properties node = Some ps" and "(name, pd) \<in> set ps"
    and "in_opt name (nd_requiredProperties node)"
    and "recursive_key_check (split_dot (pd_key pd)) doc = Inr False"
  shows "\<not> v"
proof -
  from assms(1,2) obtain p u v' where
    s: "std_node_props doc node ps ([], [], True) = Inr (p, u, v')" and v: "v = v'"
    by (auto simp: gen_standard_node_def Let_def split: sum.splits if_splits)
  from std_node_props_required_missing [OF s assms(3,4,5)] v show ?thesis by simp
qed

lemma gen_nodes_loop_required_invalid:
  "gen_nodes_loop doc defs acc = Inr (ns, v) \<Longrightarrow> d \<in> set defs \<Longrightarrow> nd_required d \<Longrightarrow>
   nd_nodeType d = ''standard'' \<Longrightarrow> nd_properties d = Some ps \<Longrightarrow> (name, pd) \<in> set ps \<Longrightarrow>
   in_opt name (nd_requiredProperties d) \<Longrightarrow>
   recursive_key_check (split_dot (pd_key pd)) doc = Inr False \<Longrightarrow> \<not> v"
proof (induction defs arbitrary: acc)
  case Nil
  then show ?case by simp
next
  case (Cons e es)
  let ?new = "\<lparr>cn_nodeType = nd_nodeType e, cn_labels = nd_labels e, cn_id = nd_id e,
             cn_properties = None, cn_uniqueProperties = None, cn_uniqueLabels = None,
             cn_instances = None\<rparr>"
  let ?res = "if nd_nodeType e = ''standard'' then gen_standard_node doc e ?new
               else if nd_nodeType e = ''iterator'' then gen_iterative_node doc e ?new
               else Inr (?new, False)"
  from Cons.prems(1) obtain n valid where res: "?res = Inr (n, valid)"
    by (cases ?res) (auto simp: Let_def)
  have loop_eq: "gen_nodes_loop doc (e # es) acc =
      (if valid then gen_nodes_loop doc es (acc @ [n])
       else if nd_required e then Inr (acc, False)
       else gen_nodes_loop doc es acc)"
    using res by (simp add: Let_def)
  show ?case
  proof (cases "e = d")
    case True
    from res True Cons.prems(4) have "gen_standard_node doc e ?new = Inr (n, valid)" by simp
    from gen_standard_node_required_missing [OF this] True Cons.prems(5,6,7,8)
    have "\<not> valid" by blast
    moreover from True Cons.prems(3) have "nd_required e" by simp
    ultimately have "gen_nodes_loop doc (e # es) acc = Inr (acc, False)"
      by (simp only: loop_eq if_False if_True)
    with Cons.prems(1) show ?thesis by simp
  next
    case False
    with Cons.prems(2) have m: "d \<in> set es" by simp
    show ?thesis
    proof (cases valid)
      case True
      with Cons.prems(1) res have "gen_nodes_loop doc es (acc @ [n]) = Inr (ns, v)"
        by (simp add: Let_def)
      from Cons.IH [OF this m Cons.prems(3,4,5,6,7,8)] show ?thesis .
    next
      case nv: False
      show ?thesis
      proof (cases "nd_required e")
        case True
        with Cons.prems(1) res nv show ?thesis by (simp add: Let_def)
      next
        case nr: False
        with Cons.prems(1) res nv have "gen_nodes_loop doc es acc = Inr (ns, v)"
          by (simp add: Let_def)
        from Cons.IH [OF this m Cons.prems(3,4,5,6,7,8)] show ?thesis .
      qed
    qed
  qed
qed

lemma gen_nodes_required_path_missing:
  assumes "gen_nodes m doc = Inr (ns, v)" and "d \<in> set (m_nodes m)" and "nd_required d"
    and "nd_nodeType d = ''standard''" and "nd_properties d = Some ps"
    and "(name, pd) \<in> set ps" and "in_opt name (nd_requiredProperties d)"
    and "recursive_key_check (split_dot (pd_key pd)) doc = Inr False"
  shows "\<not> v"
  using gen_nodes_loop_required_invalid [of doc "m_nodes m" "[]" ns v d ps name pd] assms
  by (simp add: gen_nodes_def)

end
